theory Spec2Isabelle
  imports Complex_Main
begin

section \<open>Data model\<close>

text \<open>
  The reduction engine of \<^verbatim>\<open>pyrs/core/reduce_hb2b_pyrs.py\<close> works on numpy arrays of
  floating-point numbers. Finite floats are idealised as real numbers; an array of
  shape (rows, columns, 3) is a list of rows, each a list of pixels, each a list of
  three channels X, Y, Z. The numbers of rows and columns of a detector are natural
  numbers. An exception is a value of type \<open>error\<close>; \<open>CheckFailed\<close> stands for whatever
  a check of \<^verbatim>\<open>checkdatatypes\<close> raises.
\<close>

datatype error =
    RuntimeError string
  | IndexError
  | ValueError
  | KeyError
  | AttributeError string
  | TypeError
  | CheckFailed

type_synonym pixel = "real list"
type_synonym pixel_array = "pixel list"
type_synonym pixel_grid = "pixel list list"

record InstrumentSetup =
  detector_rows :: nat
  detector_columns :: nat
  pixel_size_x :: real
  pixel_size_y :: real
  arm_length :: real

record ResidualStressInstrumentCalibration =
  center_shift_x :: real
  center_shift_y :: real
  center_shift_z :: real
  rotation_x :: real
  rotation_y :: real
  rotation_z :: real

text \<open>A grid has shape (R, C, 3).\<close>

definition grid_shape :: "nat \<Rightarrow> nat \<Rightarrow> pixel_grid \<Rightarrow> bool" where
  "grid_shape R C g =
     (length g = R \<and> list_all (\<lambda>row. length row = C \<and> list_all (\<lambda>p. length p = 3) row) g)"

section \<open>The uncalibrated pixel grid\<close>

text \<open>
  \<^verbatim>\<open>np.ndarray(shape=(num_rows, num_columns, 3))\<close> allocates without initialising: the
  contents are whatever the memory held, here an arbitrary function \<open>u\<close> of the index.
\<close>

definition np_ndarray :: "(nat \<Rightarrow> nat \<Rightarrow> nat \<Rightarrow> real) \<Rightarrow> nat \<Rightarrow> nat \<Rightarrow> pixel_grid" where
  "np_ndarray u R C = map (\<lambda>r. map (\<lambda>c. map (u r c) [0..<3]) [0..<C]) [0..<R]"

text \<open>\<^verbatim>\<open>m[r, :, k] = v\<close>, \<^verbatim>\<open>m[:, c, k] = v\<close> and \<^verbatim>\<open>m[:, :, k] = v\<close>.\<close>

definition set_row_channel :: "nat \<Rightarrow> nat \<Rightarrow> real \<Rightarrow> pixel_grid \<Rightarrow> pixel_grid" where
  "set_row_channel r k v g = g[r := map (\<lambda>p. p[k := v]) (g ! r)]"

definition set_column_channel :: "nat \<Rightarrow> nat \<Rightarrow> real \<Rightarrow> pixel_grid \<Rightarrow> pixel_grid" where
  "set_column_channel c k v g = map (\<lambda>row. row[c := (row ! c)[k := v]]) g"

definition set_channel :: "nat \<Rightarrow> real \<Rightarrow> pixel_grid \<Rightarrow> pixel_grid" where
  "set_channel k v g = map (map (\<lambda>p. p[k := v])) g"

definition set_uncalibrated_pixels ::
  "(nat \<Rightarrow> nat \<Rightarrow> nat \<Rightarrow> real) \<Rightarrow> InstrumentSetup \<Rightarrow> pixel_grid" where
  "set_uncalibrated_pixels u init_setup =
     (let num_rows = detector_rows init_setup;
          num_columns = detector_columns init_setup;
          psx = pixel_size_x init_setup;
          psy = pixel_size_y init_setup;
          pixel_matrix = np_ndarray u num_rows num_columns;
          start_y_pos = - (real num_rows * 0.5 - 0.5) * psy;
          start_x_pos = (real num_columns * 0.5 - 0.5) * psx;
          pm1 = fold (\<lambda>row_index. set_row_channel row_index 1
                         (start_y_pos + real row_index * psy))
                  [0..<num_rows] pixel_matrix;
          pm2 = fold (\<lambda>col_index. set_column_channel col_index 0
                         (start_x_pos - real col_index * psx))
                  [0..<num_columns] pm1
      in set_channel 2 0 pm2)"

section \<open>Rotation matrices\<close>

text \<open>
  The three single-axis matrices are \<^verbatim>\<open>numpy.matrix\<close> objects, for which \<^verbatim>\<open>*\<close> is the
  matrix product; \<^verbatim>\<open>a * b * c\<close> associates to the left.
\<close>

type_synonym matrix3 = "real list list"

definition cal_rotation_matrix_x :: "real \<Rightarrow> matrix3" where
  "cal_rotation_matrix_x angle_rad =
     [[1, 0, 0],
      [0, cos angle_rad, - sin angle_rad],
      [0, sin angle_rad, cos angle_rad]]"

definition cal_rotation_matrix_y :: "real \<Rightarrow> matrix3" where
  "cal_rotation_matrix_y angle_rad =
     [[cos angle_rad, 0, sin angle_rad],
      [0, 1, 0],
      [- sin angle_rad, 0, cos angle_rad]]"

definition cal_rotation_matrix_z :: "real \<Rightarrow> matrix3" where
  "cal_rotation_matrix_z angle_rad =
     [[cos angle_rad, - sin angle_rad, 0],
      [sin angle_rad, cos angle_rad, 0],
      [0, 0, 1]]"

definition matrix_mul :: "matrix3 \<Rightarrow> matrix3 \<Rightarrow> matrix3" where
  "matrix_mul A B =
     map (\<lambda>i. map (\<lambda>j. \<Sum>k\<leftarrow>[0..<3]. A ! i ! k * B ! k ! j) [0..<3]) [0..<3]"

definition generate_rotation_matrix :: "real \<Rightarrow> real \<Rightarrow> real \<Rightarrow> matrix3" where
  "generate_rotation_matrix rot_x_rad rot_y_rad rot_z_rad =
     (let rot_x_matrix = cal_rotation_matrix_x rot_x_rad;
          rot_y_matrix = cal_rotation_matrix_y rot_y_rad;
          rot_z_matrix = cal_rotation_matrix_z rot_z_rad
      in matrix_mul (matrix_mul rot_x_matrix rot_y_matrix) rot_z_matrix)"

text \<open>
  \<^verbatim>\<open>_rotate_detector\<close>: a fresh array of zeros of the detector's shape, then for each
  \<open>i\<close>, \<open>j\<close> in range(3) the statement
  \<^verbatim>\<open>rotate_det[:, :, i] += rotation_matrix[i, j] * detector_matrix[:, :, j]\<close>.
\<close>

definition np_zeros_like :: "pixel_grid \<Rightarrow> pixel_grid" where
  "np_zeros_like g = map (map (map (\<lambda>_. 0))) g"

definition add_scaled_channel ::
  "nat \<Rightarrow> real \<Rightarrow> nat \<Rightarrow> pixel_grid \<Rightarrow> pixel_grid \<Rightarrow> pixel_grid" where
  "add_scaled_channel i m j det acc =
     map2 (\<lambda>drow arow. map2 (\<lambda>dp ap. ap[i := ap ! i + m * dp ! j]) drow arow) det acc"

definition rotate_detector :: "pixel_grid \<Rightarrow> matrix3 \<Rightarrow> pixel_grid" where
  "rotate_detector detector_matrix rotation_matrix =
     fold (\<lambda>i. fold (\<lambda>j. add_scaled_channel i (rotation_matrix ! i ! j) j detector_matrix)
                  [0..<3])
       [0..<3] (np_zeros_like detector_matrix)"

section \<open>The instrument object and the array store\<close>

text \<open>
  numpy arrays are mutable objects that several names may share. The store is a list of
  arrays, an array reference is its index; \<^verbatim>\<open>copy()\<close>, \<^verbatim>\<open>np.zeros\<close> and
  \<^verbatim>\<open>np.ndarray\<close> allocate a new entry, an augmented slice assignment updates an entry
  in place. The instrument object holds references.
\<close>

type_synonym store = "pixel_grid list"

record ResidualStressInstrument =
  init_setup :: InstrumentSetup
  raw_pixel_matrix :: nat
  pixel_matrix :: "nat option"

definition alloc :: "store \<Rightarrow> pixel_grid \<Rightarrow> store \<times> nat" where
  "alloc h g = (h @ [g], length h)"

text \<open>\<^verbatim>\<open>m[:, :, k] += v\<close>.\<close>

definition add_to_channel :: "nat \<Rightarrow> real \<Rightarrow> pixel_grid \<Rightarrow> pixel_grid" where
  "add_to_channel k v g = map (map (\<lambda>p. p[k := p ! k + v])) g"

definition instrument_init ::
  "(nat \<Rightarrow> nat \<Rightarrow> nat \<Rightarrow> real) \<Rightarrow> InstrumentSetup \<Rightarrow> store \<Rightarrow> store \<times> ResidualStressInstrument"
  where
  "instrument_init u instrument_setup h =
     (let (h1, a) = alloc h (set_uncalibrated_pixels u instrument_setup)
      in (h1, \<lparr>init_setup = instrument_setup, raw_pixel_matrix = a, pixel_matrix = None\<rparr>))"

text \<open>
  \<^verbatim>\<open>build_instrument\<close>. The type checks of \<^verbatim>\<open>checkdatatypes\<close> hold by typing. The debugging
  statement \<^verbatim>\<open>print('HB2B Lower Left: {}'.format(self._pixel_matrix[0, 0]))\<close> indexes the
  array at [0, 0] and raises IndexError on an array without rows or without columns;
  the object and the store keep what was done before it.
\<close>

definition build_instrument ::
  "real \<Rightarrow> ResidualStressInstrumentCalibration \<Rightarrow> store \<times> ResidualStressInstrument
     \<Rightarrow> (error + nat) \<times> store \<times> ResidualStressInstrument" where
  "build_instrument two_theta instrument_calibration st =
     (let (h, self) = st;
          (h1, a1) = alloc h (h ! raw_pixel_matrix self);
          self1 = self\<lparr>pixel_matrix := Some a1\<rparr>;
          h2 = h1[a1 := add_to_channel 0 (center_shift_x instrument_calibration) (h1 ! a1)];
          h3 = h2[a1 := add_to_channel 1 (center_shift_y instrument_calibration) (h2 ! a1)]
      in if h3 ! a1 = [] \<or> hd (h3 ! a1) = [] then (Inl IndexError, h3, self1)
         else
           let rot_x_flip = rotation_x instrument_calibration * pi / 180;
               rot_y_flip = rotation_y instrument_calibration * pi / 180;
               rot_z_spin = rotation_z instrument_calibration * pi / 180;
               calib_matrix = generate_rotation_matrix rot_x_flip rot_y_flip rot_z_spin;
               (h4, a2) = alloc h3 (rotate_detector (h3 ! a1) calib_matrix);
               self2 = self1\<lparr>pixel_matrix := Some a2\<rparr>;
               h5 = h4[a2 := add_to_channel 2
                       (arm_length (init_setup self2) + center_shift_z instrument_calibration)
                       (h4 ! a2)];
               two_theta_rad = two_theta * pi / 180;
               two_theta_matrix = cal_rotation_matrix_y two_theta_rad;
               (h6, a3) = alloc h5 (rotate_detector (h5 ! a2) two_theta_matrix);
               self3 = self2\<lparr>pixel_matrix := Some a3\<rparr>
           in (Inr a3, h6, self3))"

text \<open>A caller that builds the instrument again and again, whatever each call returned.\<close>

definition build_instrument_calls ::
  "(real \<times> ResidualStressInstrumentCalibration) list \<Rightarrow> store \<times> ResidualStressInstrument
     \<Rightarrow> store \<times> ResidualStressInstrument" where
  "build_instrument_calls calls st = fold (\<lambda>(t, cal) s. snd (build_instrument t cal s)) calls st"

text \<open>
  \<^verbatim>\<open>get_pixel_matrix\<close> and \<^verbatim>\<open>get_pixel_array\<close>. The latter transposes the first two axes
  and reshapes to (num_x * num_y, 3) in row-major order. \<open>num_z\<close> is the length of the
  last axis.
\<close>

definition get_pixel_matrix :: "store \<times> ResidualStressInstrument \<Rightarrow> error + pixel_grid" where
  "get_pixel_matrix st =
     (let (h, self) = st
      in case pixel_matrix self of
           None \<Rightarrow> Inl (RuntimeError ''Instrument has not been built yet'')
         | Some a \<Rightarrow> Inr (h ! a))"

definition transpose_102 :: "pixel_grid \<Rightarrow> pixel_grid" where
  "transpose_102 m =
     (let num_x = length m; num_y = (case m of [] \<Rightarrow> 0 | row # _ \<Rightarrow> length row)
      in map (\<lambda>c. map (\<lambda>r. m ! r ! c) [0..<num_x]) [0..<num_y])"

definition get_pixel_array :: "store \<times> ResidualStressInstrument \<Rightarrow> error + pixel_array" where
  "get_pixel_array st =
     (let (h, self) = st
      in case pixel_matrix self of
           None \<Rightarrow> Inl (RuntimeError ''Instrument has not been built yet'')
         | Some a \<Rightarrow>
             if \<not> list_all (list_all (\<lambda>p. length p = 3)) (h ! a)
             then Inl (RuntimeError ''Pixel matrix shall have (x, y, 3) shape'')
             else Inr (concat (transpose_102 (h ! a))))"

section \<open>Intermediate arrays of build_instrument\<close>

text \<open>
  The arrays \<^verbatim>\<open>build_instrument\<close> holds in \<^verbatim>\<open>self._pixel_matrix\<close> after the centre shift,
  after the calibration rotation and the push along Z, and after the two-theta rotation.
\<close>

definition shifted_grid :: "ResidualStressInstrumentCalibration \<Rightarrow> pixel_grid \<Rightarrow> pixel_grid" where
  "shifted_grid cal g = add_to_channel 1 (center_shift_y cal) (add_to_channel 0 (center_shift_x cal) g)"

definition calibrated_grid ::
  "InstrumentSetup \<Rightarrow> ResidualStressInstrumentCalibration \<Rightarrow> pixel_grid \<Rightarrow> pixel_grid" where
  "calibrated_grid setup cal g =
     add_to_channel 2 (arm_length setup + center_shift_z cal)
       (rotate_detector (shifted_grid cal g)
          (generate_rotation_matrix (rotation_x cal * pi / 180) (rotation_y cal * pi / 180)
             (rotation_z cal * pi / 180)))"

definition posed_grid ::
  "InstrumentSetup \<Rightarrow> real \<Rightarrow> ResidualStressInstrumentCalibration \<Rightarrow> pixel_grid \<Rightarrow> pixel_grid" where
  "posed_grid setup t cal g =
     rotate_detector (calibrated_grid setup cal g) (cal_rotation_matrix_y (t * pi / 180))"

section \<open>The pose as the specification words it\<close>

text \<open>
  Rotating a pixel by a matrix, new[i] = \<Sum>j R[i,j] * old[j]; the calibration rotation
  Rx(rotation_x) Ry(rotation_y) Rz(rotation_z) as a product of three matrices; and the
  pose of one pixel: shift X and Y, rotate by the calibration rotation, add
  arm_length + center_shift_z to Z, rotate by Ry(two-theta). Angles in degrees are
  converted to radians.
\<close>

definition spec_rotate_pixel :: "matrix3 \<Rightarrow> pixel \<Rightarrow> pixel" where
  "spec_rotate_pixel M v = map (\<lambda>i. \<Sum>j\<leftarrow>[0..<3]. M ! i ! j * v ! j) [0..<3]"

definition spec_calibration_rotation :: "real \<Rightarrow> real \<Rightarrow> real \<Rightarrow> matrix3" where
  "spec_calibration_rotation ax ay az =
     map (\<lambda>i. map (\<lambda>j. \<Sum>k\<leftarrow>[0..<3]. \<Sum>l\<leftarrow>[0..<3].
            cal_rotation_matrix_x ax ! i ! k * cal_rotation_matrix_y ay ! k ! l *
            cal_rotation_matrix_z az ! l ! j) [0..<3]) [0..<3]"

definition spec_pose ::
  "InstrumentSetup \<Rightarrow> real \<Rightarrow> ResidualStressInstrumentCalibration \<Rightarrow> pixel \<Rightarrow> pixel" where
  "spec_pose setup t cal p =
     (let p1 = [p ! 0 + center_shift_x cal, p ! 1 + center_shift_y cal, p ! 2];
          p2 = spec_rotate_pixel
                 (spec_calibration_rotation (rotation_x cal * pi / 180)
                    (rotation_y cal * pi / 180) (rotation_z cal * pi / 180)) p1;
          p3 = [p2 ! 0, p2 ! 1, p2 ! 2 + (arm_length setup + center_shift_z cal)]
      in spec_rotate_pixel (cal_rotation_matrix_y (t * pi / 180)) p3)"

section \<open>Floating-point values\<close>

text \<open>
  Positions are finite numbers. Dividing by a zero norm produces a value that is not a
  finite number any more: numpy returns nan for 0/0 and an infinity for x/0, and carries
  them through the later operations without raising.
\<close>

datatype npfloat = Fin real | PInf | NInf | NaN

definition np_true_divide :: "real \<Rightarrow> real \<Rightarrow> npfloat" where
  "np_true_divide x y =
     (if y \<noteq> 0 then Fin (x / y)
      else if x = 0 then NaN
      else if 0 < x then PInf else NInf)"

fun np_multiply :: "npfloat \<Rightarrow> real \<Rightarrow> npfloat" where
  "np_multiply (Fin a) k = Fin (a * k)"
| "np_multiply NaN k = NaN"
| "np_multiply PInf k = (if k = 0 then NaN else if 0 < k then PInf else NInf)"
| "np_multiply NInf k = (if k = 0 then NaN else if 0 < k then NInf else PInf)"

fun np_add :: "npfloat \<Rightarrow> npfloat \<Rightarrow> npfloat" where
  "np_add (Fin a) (Fin b) = Fin (a + b)"
| "np_add NaN _ = NaN"
| "np_add _ NaN = NaN"
| "np_add PInf NInf = NaN"
| "np_add NInf PInf = NaN"
| "np_add PInf _ = PInf"
| "np_add _ PInf = PInf"
| "np_add NInf _ = NInf"
| "np_add _ NInf = NInf"

fun np_arccos :: "npfloat \<Rightarrow> npfloat" where
  "np_arccos (Fin a) = (if - 1 \<le> a \<and> a \<le> 1 then Fin (arccos a) else NaN)"
| "np_arccos _ = NaN"

fun np_divide_by :: "npfloat \<Rightarrow> real \<Rightarrow> npfloat" where
  "np_divide_by (Fin a) d = np_true_divide a d"
| "np_divide_by NaN d = NaN"
| "np_divide_by PInf d = (if 0 \<le> d then PInf else NInf)"
| "np_divide_by NInf d = (if 0 \<le> d then NInf else PInf)"

section \<open>Conversion of positions to two-theta\<close>

text \<open>
  \<^verbatim>\<open>convert_to_2theta\<close> has one branch for an N x M x 3 array and one for an (N x M) x 3
  array; the operations are elementwise. The array passed in is normalised in place;
  only the returned angles are modelled. Indexing channel 2 of a pixel with fewer than
  three channels raises IndexError.
\<close>

definition k_in_vec :: "real list" where
  "k_in_vec = [0, 0, 1]"

definition two_theta_of_pixel :: "pixel \<Rightarrow> npfloat" where
  "two_theta_of_pixel v =
     (let det_pos_norm = sqrt ((v ! 0)\<^sup>2 + (v ! 1)\<^sup>2 + (v ! 2)\<^sup>2);
          n = map (\<lambda>i_dir. np_true_divide (v ! i_dir) det_pos_norm) [0..<3];
          diff_angle_cos =
            np_add (np_add (np_multiply (n ! 0) (k_in_vec ! 0))
                           (np_multiply (n ! 1) (k_in_vec ! 1)))
                   (np_multiply (n ! 2) (k_in_vec ! 2))
      in np_divide_by (np_multiply (np_arccos diff_angle_cos) 180) pi)"

definition convert_to_2theta_matrix :: "pixel_grid \<Rightarrow> error + npfloat list list" where
  "convert_to_2theta_matrix des_pos_array =
     (if list_all (list_all (\<lambda>p. 3 \<le> length p)) des_pos_array
      then Inr (map (map two_theta_of_pixel) des_pos_array)
      else Inl IndexError)"

definition convert_to_2theta_array :: "pixel_array \<Rightarrow> error + npfloat list" where
  "convert_to_2theta_array des_pos_array =
     (if list_all (\<lambda>p. 3 \<le> length p) des_pos_array
      then Inr (map two_theta_of_pixel des_pos_array)
      else Inl IndexError)"

datatype position_array = Dim3 pixel_grid | Dim2 pixel_array
datatype angle_array = Angles2 "npfloat list list" | Angles1 "npfloat list"

fun convert_to_2theta :: "position_array \<Rightarrow> error + angle_array" where
  "convert_to_2theta (Dim3 g) = map_sum id Angles2 (convert_to_2theta_matrix g)"
| "convert_to_2theta (Dim2 a) = map_sum id Angles1 (convert_to_2theta_array a)"

text \<open>The angle as the specification words it.\<close>

definition spec_two_theta :: "pixel \<Rightarrow> npfloat" where
  "spec_two_theta v =
     (let norm = sqrt ((v ! 0)\<^sup>2 + (v ! 1)\<^sup>2 + (v ! 2)\<^sup>2)
      in if norm = 0 then NaN else Fin (arccos (v ! 2 / norm) * 180 / pi))"

section \<open>The checks of checkdatatypes\<close>

text \<open>
  The module \<^verbatim>\<open>pyrs.utilities.checkdatatypes\<close> is not among the sources. Its type checks
  hold by typing. What its value checks decide is a parameter of the model: whether
  \<^verbatim>\<open>check_int_variable\<close> accepts a value for a range, and whether \<^verbatim>\<open>check_numpy_arrays\<close>
  accepts a list of one-dimensional arrays that are to have the same shape. A check that
  does not accept raises.
\<close>

record checkdatatypes =
  check_int_variable :: "int \<Rightarrow> int option \<times> int option \<Rightarrow> bool"
  check_numpy_arrays :: "real list list \<Rightarrow> bool"

section \<open>numpy.histogram with an integer number of bins\<close>

text \<open>
  \<^verbatim>\<open>np.histogram(a, bins=n, range=r, weights=w)\<close>: the weights must have the shape of
  \<open>a\<close>, the number of bins must be positive. The outer edges are the given range, or
  (0, 1) for an empty array, or the minimum and maximum of the data, which must be
  finite; a range of width zero is widened by one half to each side. The edges are
  \<open>n + 1\<close> equally spaced values. An entry is kept when it lies within the outer
  edges, both included (nan and the infinities compare false); its bin is the integer
  part of its scaled offset, the last edge belonging to the last bin; the weights of
  the kept entries are summed per bin.
\<close>

fun is_finite :: "npfloat \<Rightarrow> bool" where
  "is_finite (Fin _) = True"
| "is_finite _ = False"

fun the_fin :: "npfloat \<Rightarrow> real" where
  "the_fin (Fin x) = x"
| "the_fin _ = 0"

fun in_range :: "real \<Rightarrow> real \<Rightarrow> npfloat \<Rightarrow> bool" where
  "in_range first_edge last_edge (Fin x) = (first_edge \<le> x \<and> x \<le> last_edge)"
| "in_range first_edge last_edge _ = False"

definition get_outer_edges :: "npfloat list \<Rightarrow> (real \<times> real) option \<Rightarrow> error + real \<times> real" where
  "get_outer_edges a hrange =
     (case (case hrange of
              Some (first_edge, last_edge) \<Rightarrow>
                if first_edge > last_edge then Inl ValueError else Inr (first_edge, last_edge)
            | None \<Rightarrow>
                if a = [] then Inr (0, 1)
                else if \<not> list_all is_finite a then Inl ValueError
                else Inr (fold min (map the_fin (tl a)) (the_fin (hd a)),
                          fold max (map the_fin (tl a)) (the_fin (hd a))))
      of Inl e \<Rightarrow> Inl e
       | Inr (first_edge, last_edge) \<Rightarrow>
           if first_edge = last_edge then Inr (first_edge - 0.5, last_edge + 0.5)
           else Inr (first_edge, last_edge))"

definition np_linspace :: "real \<Rightarrow> real \<Rightarrow> nat \<Rightarrow> real list" where
  "np_linspace first_edge last_edge n =
     map (\<lambda>i. first_edge + real i * ((last_edge - first_edge) / real n)) [0..<Suc n]"

definition bin_index :: "real \<Rightarrow> real \<Rightarrow> nat \<Rightarrow> real \<Rightarrow> nat" where
  "bin_index first_edge last_edge n x =
     (let i = nat \<lfloor>(x - first_edge) * (real n / (last_edge - first_edge))\<rfloor>
      in if i = n then i - 1 else i)"

definition np_bincount :: "nat list \<Rightarrow> real list \<Rightarrow> nat \<Rightarrow> real list" where
  "np_bincount indices weights minlength =
     fold (\<lambda>(i, w) n. n[i := n ! i + w]) (zip indices weights) (replicate minlength 0)"

definition np_histogram ::
  "npfloat list \<Rightarrow> int \<Rightarrow> (real \<times> real) option \<Rightarrow> real list \<Rightarrow> error + real list \<times> real list"
  where
  "np_histogram a bins hrange weights =
     (if length weights \<noteq> length a then Inl ValueError
      else if bins < 1 then Inl ValueError
      else case get_outer_edges a hrange of
             Inl e \<Rightarrow> Inl e
           | Inr (first_edge, last_edge) \<Rightarrow>
               let n_equal_bins = nat bins;
                   bin_edges = np_linspace first_edge last_edge n_equal_bins;
                   keep = filter (\<lambda>(x, w). in_range first_edge last_edge x) (zip a weights);
                   indices = map (\<lambda>(x, w). bin_index first_edge last_edge n_equal_bins (the_fin x))
                               keep;
                   n = np_bincount indices (map snd keep) n_equal_bins
               in Inr (n, bin_edges))"

section \<open>reduce_to_2theta_histogram\<close>

text \<open>
  \<^verbatim>\<open>vec_counts *= mask\<close> on one-dimensional arrays: elementwise for equal lengths,
  broadcast for a mask of length one, ValueError otherwise.
\<close>

definition np_imultiply :: "real list \<Rightarrow> real list \<Rightarrow> error + real list" where
  "np_imultiply vec mask_vec =
     (if length mask_vec = length vec then Inr (map2 (*) vec mask_vec)
      else if length mask_vec = 1 then Inr (map (\<lambda>x. x * mask_vec ! 0) vec)
      else Inl ValueError)"

text \<open>
  The first two statements of \<^verbatim>\<open>reduce_to_2theta_histogram\<close>: the flattened pixel
  positions and their angles (the branch of \<^verbatim>\<open>convert_to_2theta\<close> for a two-dimensional
  array).
\<close>

definition two_theta_array :: "store \<times> ResidualStressInstrument \<Rightarrow> error + npfloat list" where
  "two_theta_array st =
     (case get_pixel_array st of
        Inl e \<Rightarrow> Inl e
      | Inr pixel_array \<Rightarrow> convert_to_2theta_array pixel_array)"

text \<open>
  The counts and the mask are one-dimensional arrays, the shape of such an array is its
  length. \<^verbatim>\<open>x_range\<close> is None or a pair; the test \<^verbatim>\<open>if x_range:\<close> holds for every pair.
  The format of the range in the error message is left out. The counts are cast to a
  new array before the mask is multiplied in, so the caller's counts are not changed;
  the result is the returned pair.
\<close>

definition reduce_to_2theta_histogram ::
  "checkdatatypes \<Rightarrow> store \<times> ResidualStressInstrument \<Rightarrow> real list \<Rightarrow> real list option \<Rightarrow> int
     \<Rightarrow> (real \<times> real) option \<Rightarrow> bool \<Rightarrow> error + real list \<times> real list" where
  "reduce_to_2theta_histogram chk st counts_array mask_opt num_bins x_range is_point_data =
     (case two_theta_array st of
        Inl e \<Rightarrow> Inl e
      | Inr tth \<Rightarrow>
          if length tth \<noteq> length counts_array
          then Inl (RuntimeError ''Counts (array) has a different ... blabla'')
          else
            case (case x_range of
                    Some (lo, hi) \<Rightarrow>
                      if lo \<ge> hi then Inl (RuntimeError ''X range is not allowed'') else Inr ()
                  | None \<Rightarrow> Inr ())
            of Inl e \<Rightarrow> Inl e
             | Inr _ \<Rightarrow>
                 case (case mask_opt of
                         None \<Rightarrow> Inr counts_array
                       | Some m \<Rightarrow>
                           if \<not> check_numpy_arrays chk [counts_array, m] then Inl CheckFailed
                           else np_imultiply counts_array m)
                 of Inl e \<Rightarrow> Inl e
                  | Inr vec_counts \<Rightarrow>
                      case np_histogram tth num_bins x_range vec_counts of
                        Inl e \<Rightarrow> Inl e
                      | Inr (hist, bin_edges) \<Rightarrow>
                          if is_point_data
                          then let delta_bin = bin_edges ! 1 - bin_edges ! 0
                               in Inr (butlast (map (\<lambda>e. e + delta_bin * 0.5) bin_edges), hist)
                          else Inr (bin_edges, hist))"

text \<open>
  The default range as the specification words it: the minimum and the maximum of the
  angles.
\<close>

definition spec_default_range :: "npfloat list \<Rightarrow> real \<times> real" where
  "spec_default_range angles = (Min (the_fin ` set angles), Max (the_fin ` set angles))"

section \<open>Worked examples\<close>

text \<open>
  Checks that accept everything, memory that held zeros, a calibration without shift or
  rotation, and three small detectors with the instrument built for each: one pixel at
  (0, 0, 1), and a row of two and of three pixels with arm length 0 swung by 90 degrees.
\<close>

definition accept_all :: checkdatatypes where
  "accept_all = \<lparr>check_int_variable = (\<lambda>_ _. True), check_numpy_arrays = (\<lambda>_. True)\<rparr>"

definition zero_memory :: "nat \<Rightarrow> nat \<Rightarrow> nat \<Rightarrow> real" where
  "zero_memory r c k = 0"

definition no_calibration :: ResidualStressInstrumentCalibration where
  "no_calibration = \<lparr>center_shift_x = 0, center_shift_y = 0, center_shift_z = 0,
     rotation_x = 0, rotation_y = 0, rotation_z = 0\<rparr>"

definition one_pixel_setup :: InstrumentSetup where
  "one_pixel_setup = \<lparr>detector_rows = 1, detector_columns = 1, pixel_size_x = 1,
     pixel_size_y = 1, arm_length = 1\<rparr>"

definition one_pixel_instrument :: "store \<times> ResidualStressInstrument" where
  "one_pixel_instrument =
     snd (build_instrument 0 no_calibration (instrument_init zero_memory one_pixel_setup []))"

definition three_pixel_setup :: InstrumentSetup where
  "three_pixel_setup = \<lparr>detector_rows = 1, detector_columns = 3, pixel_size_x = 1,
     pixel_size_y = 1, arm_length = 0\<rparr>"

definition three_pixel_instrument :: "store \<times> ResidualStressInstrument" where
  "three_pixel_instrument =
     snd (build_instrument 90 no_calibration (instrument_init zero_memory three_pixel_setup []))"

definition two_pixel_setup :: InstrumentSetup where
  "two_pixel_setup = \<lparr>detector_rows = 1, detector_columns = 2, pixel_size_x = 2,
     pixel_size_y = 1, arm_length = 0\<rparr>"

definition two_pixel_instrument :: "store \<times> ResidualStressInstrument" where
  "two_pixel_instrument =
     snd (build_instrument 90 no_calibration (instrument_init zero_memory two_pixel_setup []))"

section \<open>The workspace\<close>

text \<open>
  \<^verbatim>\<open>HidraWorkspace\<close> of \<^verbatim>\<open>pyrs/core/workspaces.py\<close>, with the fields the reduction reads
  and writes. A dictionary from sub-runs to spectra is a list of pairs with distinct
  keys; the reduced data are two-dimensional arrays, kept with their number of columns;
  the two-theta matrix may also be absent or of another dimension. The class of the
  detector shift is not among the sources. The two-theta and intensity arrays passed in
  are one-dimensional, their shape is their length.
\<close>

typedecl AnglerCameraDetectorShift

datatype ndarray2 = OtherDim | Array2 nat "real list list"

record HidraWorkspace =
  raw_counts :: "int \<rightharpoonup> real list"
  sub_run_to_spectrum :: "(int \<times> nat) list option"
  two_theta_matrix :: "ndarray2 option"
  diff_data_set :: "string option \<rightharpoonup> nat \<times> real list list"
  instrument_setup :: "InstrumentSetup option"
  instrument_geometry_shift :: "AnglerCameraDetectorShift option"
  sample_log_dict :: "string \<rightharpoonup> (int \<rightharpoonup> real)"

definition HidraWorkspace_init :: HidraWorkspace where
  "HidraWorkspace_init =
     \<lparr>raw_counts = Map.empty, sub_run_to_spectrum = None, two_theta_matrix = None,
      diff_data_set = Map.empty, instrument_setup = None, instrument_geometry_shift = None,
      sample_log_dict = Map.empty\<rparr>"

text \<open>
  \<^verbatim>\<open>numpy.ndarray(shape=(n, m))\<close> allocates without initialising; \<open>u\<close> is what the memory
  held.
\<close>

definition np_ndarray2 :: "(nat \<Rightarrow> nat \<Rightarrow> real) \<Rightarrow> nat \<Rightarrow> nat \<Rightarrow> nat \<times> real list list" where
  "np_ndarray2 u n m = (m, map (\<lambda>i. map (u i) [0..<m]) [0..<n])"

text \<open>
  \<^verbatim>\<open>set_reduced_diffraction_data\<close>. The workspace is returned as the call leaves it, also
  when it raises: the two arrays may have been allocated before the sub-run is looked up.
\<close>

definition set_reduced_diffraction_data ::
  "checkdatatypes \<Rightarrow> (nat \<Rightarrow> nat \<Rightarrow> real) \<Rightarrow> HidraWorkspace \<Rightarrow> int \<Rightarrow> string option
     \<Rightarrow> real list \<Rightarrow> real list \<Rightarrow> (error + unit) \<times> HidraWorkspace" where
  "set_reduced_diffraction_data chk u self sub_run mask_id two_theta_arr intensity_array =
     (case sub_run_to_spectrum self of
        None \<Rightarrow> (Inl (RuntimeError ''Sub run - spectrum map has not been set up yet!''), self)
      | Some s2s \<Rightarrow>
          if \<not> check_int_variable chk sub_run (Some 1, None) then (Inl CheckFailed, self)
          else if length two_theta_arr \<noteq> length intensity_array
          then (Inl (RuntimeError
                  ''Two theta array (bin centers) must have same dimension as intensity array.''),
                self)
          else
            let num_sub_runs = length s2s;
                self1 = (case two_theta_matrix self of
                           Some (Array2 c r) \<Rightarrow> self
                         | _ \<Rightarrow>
                             (let (c, r) = np_ndarray2 u num_sub_runs (length two_theta_arr)
                              in self\<lparr>two_theta_matrix := Some (Array2 c r)\<rparr>));
                self2 = (case diff_data_set self1 mask_id of
                           Some _ \<Rightarrow> self1
                         | None \<Rightarrow>
                             self1\<lparr>diff_data_set := (diff_data_set self1)
                                     (mask_id \<mapsto> np_ndarray2 u num_sub_runs
                                                   (length intensity_array))\<rparr>)
            in case map_of s2s sub_run of
                 None \<Rightarrow> (Inl KeyError, self2)
               | Some spec_id \<Rightarrow>
                   (case (two_theta_matrix self2, diff_data_set self2 mask_id) of
                      (Some (Array2 tc tr), Some (dc, dr)) \<Rightarrow>
                        if tc \<noteq> length two_theta_arr \<or> dc \<noteq> length intensity_array
                        then (Inl (RuntimeError ''2theta vector are different''), self2)
                        else if \<not> spec_id < length tr then (Inl IndexError, self2)
                        else
                          let self3 = self2\<lparr>two_theta_matrix :=
                                              Some (Array2 tc (tr[spec_id := two_theta_arr]))\<rparr>
                          in if \<not> spec_id < length dr then (Inl IndexError, self3)
                             else (Inr (),
                                   self3\<lparr>diff_data_set := (diff_data_set self3)
                                      (mask_id \<mapsto> (dc, dr[spec_id := intensity_array]))\<rparr>)
                    | _ \<Rightarrow> (Inl IndexError, self2)))"

section \<open>The reduction manager\<close>

text \<open>
  \<^verbatim>\<open>HB2BReductionManager\<close> of \<^verbatim>\<open>pyrs/core/reduction_manager.py\<close> calls methods by name
  on a \<^verbatim>\<open>HidraWorkspace\<close> and on a \<^verbatim>\<open>PyHB2BReduction\<close>. Python looks the name up in the
  object and its class and raises AttributeError when it is not there. The two lists
  hold every name the classes of the sources define: methods, properties and the fields
  set by the constructors.
\<close>

definition HidraWorkspace_attributes :: "string list" where
  "HidraWorkspace_attributes =
     [''__init__'', ''name'', ''_create_subrun_spectrum_map'', ''_load_raw_counts'',
      ''_load_reduced_diffraction_data'', ''_load_instrument'', ''_load_sample_logs'',
      ''_load_wave_length'', ''get_2theta'', ''get_l2'', ''get_instrument_setup'',
      ''get_detector_counts'', ''get_sub_runs'', ''get_wave_length'', ''load_hidra_project'',
      ''get_detector_shift'', ''get_reduced_diffraction_data_set'',
      ''get_reduced_diffraction_data'', ''get_sample_log_value'', ''get_sample_log_values'',
      ''get_spectrum_index'', ''get_sub_runs_from_spectrum'', ''has_raw_data'',
      ''has_sample_log'', ''set_raw_counts'', ''set_reduced_diffraction_data'',
      ''set_sample_log'', ''set_sub_runs'', ''save_experimental_data'',
      ''save_reduced_diffraction_data'', ''sample_log_names'', ''sample_logs_for_plot'',
      ''set_wave_length'',
      ''_name'', ''_raw_counts'', ''_sub_run_to_spectrum'', ''_spectrum_to_sub_run'',
      ''_sub_run_array'', ''_wave_length_dict'', ''_wave_length_calibrated_dict'',
      ''_2theta_matrix'', ''_diff_data_set'', ''_instrument_setup'',
      ''_instrument_geometry_shift'', ''_sample_log_dict'', ''_project_file_name'']"

definition PyHB2BReduction_attributes :: "string list" where
  "PyHB2BReduction_attributes =
     [''__init__'', ''build_instrument'', ''get_pixel_positions'', ''convert_to_2theta'',
      ''reduce_to_2theta_histogram'', ''_instrument'']"

definition call_method :: "string list \<Rightarrow> string \<Rightarrow> error + 'a \<Rightarrow> error + 'a" where
  "call_method class_attributes name body =
     (if name \<in> set class_attributes then body else Inl (AttributeError name))"

text \<open>
  What the sources do not hold: the constant \<^verbatim>\<open>HidraConstants.TWO_THETA\<close>, and what the
  methods \<^verbatim>\<open>get_subruns\<close>, \<^verbatim>\<open>get_raw_data\<close> and \<^verbatim>\<open>set_experimental_data\<close> would do if the
  classes defined them. They are parameters of the model.
\<close>

record not_in_sources =
  TWO_THETA :: string
  get_subruns :: "HidraWorkspace \<Rightarrow> error + int list"
  get_raw_data :: "HidraWorkspace \<Rightarrow> int \<Rightarrow> error + real list"
  set_experimental_data :: "real \<Rightarrow> real list \<Rightarrow> error + unit"

definition get_2theta ::
  "not_in_sources \<Rightarrow> checkdatatypes \<Rightarrow> HidraWorkspace \<Rightarrow> int \<Rightarrow> error + real" where
  "get_2theta nis chk self sub_run =
     (if \<not> check_int_variable chk sub_run (Some 0, None) then Inl CheckFailed
      else case sample_log_dict self (TWO_THETA nis) of
             None \<Rightarrow> Inl (RuntimeError ''Unable to retrieve 2theta value'')
           | Some log_values \<Rightarrow>
               (case log_values sub_run of
                  None \<Rightarrow> Inl (RuntimeError ''Unable to retrieve 2theta value'')
                | Some two_theta \<Rightarrow> Inr two_theta))"

definition get_instrument_setup :: "HidraWorkspace \<Rightarrow> InstrumentSetup option" where
  "get_instrument_setup self = instrument_setup self"

definition get_detector_shift :: "HidraWorkspace \<Rightarrow> AnglerCameraDetectorShift option" where
  "get_detector_shift self = instrument_geometry_shift self"

definition PyHB2BReduction_init ::
  "(nat \<Rightarrow> nat \<Rightarrow> nat \<Rightarrow> real) \<Rightarrow> InstrumentSetup option
     \<Rightarrow> error + store \<times> ResidualStressInstrument" where
  "PyHB2BReduction_init u instrument =
     (case instrument of
        None \<Rightarrow> Inl CheckFailed
      | Some setup \<Rightarrow> Inr (instrument_init u setup []))"

text \<open>
  \<^verbatim>\<open>reduce_sub_run_diffraction\<close> with the native engine (\<^verbatim>\<open>use_mantid_engine = False\<close>; the
  module of the other engine is not among the sources). After
  \<^verbatim>\<open>set_experimental_data\<close> the call \<^verbatim>\<open>reduction_engine.build_instrument(geometry_calibration)\<close>
  passes one argument to a method that requires seven and raises TypeError, so no later
  statement is reached on any path.
\<close>

definition reduce_sub_run_diffraction ::
  "not_in_sources \<Rightarrow> checkdatatypes \<Rightarrow> (nat \<Rightarrow> nat \<Rightarrow> nat \<Rightarrow> real) \<Rightarrow> HidraWorkspace \<Rightarrow> int
     \<Rightarrow> AnglerCameraDetectorShift option \<Rightarrow> string option \<times> real list option
     \<Rightarrow> (error + unit) \<times> HidraWorkspace" where
  "reduce_sub_run_diffraction nis chk u workspace sub_run geometry_calibration mask_vec_id =
     (case call_method HidraWorkspace_attributes ''get_raw_data''
             (get_raw_data nis workspace sub_run) of
        Inl e \<Rightarrow> (Inl e, workspace)
      | Inr raw_count_vec \<Rightarrow>
          (case call_method HidraWorkspace_attributes ''get_2theta''
                  (get_2theta nis chk workspace sub_run) of
             Inl e \<Rightarrow> (Inl e, workspace)
           | Inr two_theta0 \<Rightarrow>
               let two_theta = - two_theta0
               in case call_method HidraWorkspace_attributes ''get_instrument_setup''
                         (PyHB2BReduction_init u (get_instrument_setup workspace)) of
                    Inl e \<Rightarrow> (Inl e, workspace)
                  | Inr reduction_engine \<Rightarrow>
                      (case call_method PyHB2BReduction_attributes ''set_experimental_data''
                              (set_experimental_data nis two_theta raw_count_vec) of
                         Inl e \<Rightarrow> (Inl e, workspace)
                       | Inr _ \<Rightarrow> (Inl TypeError, workspace))))"

text \<open>
  The manager: the current workspace is one of the sessions, held by its name. The mask
  argument is None, a mask id or a mask vector; for a vector the mask id is to come from
  \<^verbatim>\<open>random.randint(1000)\<close>, which raises TypeError for its missing second argument. The
  geometry argument is a shift object or a flag.
\<close>

record HB2BReductionManager =
  curr_workspace :: "string option"
  session_dict :: "string \<rightharpoonup> HidraWorkspace"
  loaded_mask_dict :: "string \<rightharpoonup> real list"

datatype mask_arg = NoMask | MaskId string | MaskVector "real list"

datatype calibrated_geometry_arg = UserShift AnglerCameraDetectorShift | UseWorkspaceShift bool

fun reduce_sub_runs ::
  "not_in_sources \<Rightarrow> checkdatatypes \<Rightarrow> (nat \<Rightarrow> nat \<Rightarrow> nat \<Rightarrow> real) \<Rightarrow> HidraWorkspace
     \<Rightarrow> AnglerCameraDetectorShift option \<Rightarrow> string option \<times> real list option \<Rightarrow> int list
     \<Rightarrow> (error + unit) \<times> HidraWorkspace" where
  "reduce_sub_runs nis chk u workspace det_pos_shift mask_vec_id [] = (Inr (), workspace)"
| "reduce_sub_runs nis chk u workspace det_pos_shift mask_vec_id (sub_run # sub_runs) =
     (case reduce_sub_run_diffraction nis chk u workspace sub_run det_pos_shift mask_vec_id of
        (Inl e, workspace1) \<Rightarrow> (Inl e, workspace1)
      | (Inr _, workspace1) \<Rightarrow>
          reduce_sub_runs nis chk u workspace1 det_pos_shift mask_vec_id sub_runs)"

definition reduce_diffraction_data ::
  "not_in_sources \<Rightarrow> checkdatatypes \<Rightarrow> (nat \<Rightarrow> nat \<Rightarrow> nat \<Rightarrow> real) \<Rightarrow> HB2BReductionManager
     \<Rightarrow> string option \<Rightarrow> calibrated_geometry_arg \<Rightarrow> real \<Rightarrow> mask_arg
     \<Rightarrow> (error + unit) \<times> HB2BReductionManager" where
  "reduce_diffraction_data nis chk u self session_name apply_calibrated_geometry
       bin_size_2theta mask_in =
     (let key = (case session_name of None \<Rightarrow> curr_workspace self | Some n \<Rightarrow> Some n)
      in if session_name \<noteq> None \<and> session_dict self (the session_name) = None
         then (Inl KeyError, self)
         else
           let workspace = (case key of None \<Rightarrow> None | Some n \<Rightarrow> session_dict self n)
           in case (case mask_in of
                      NoMask \<Rightarrow> Inr (None, None)
                    | MaskId m \<Rightarrow>
                        (case loaded_mask_dict self m of
                           None \<Rightarrow> Inl KeyError
                         | Some v \<Rightarrow> Inr (Some m, Some v))
                    | MaskVector v \<Rightarrow>
                        if \<not> check_numpy_arrays chk [v] then Inl CheckFailed
                        else Inl TypeError)
              of Inl e \<Rightarrow> (Inl e, self)
               | Inr mask_id_vec \<Rightarrow>
                   (case (case apply_calibrated_geometry of
                            UserShift s \<Rightarrow> Inr (Some s)
                          | UseWorkspaceShift True \<Rightarrow>
                              (case workspace of
                                 None \<Rightarrow> Inl (AttributeError ''get_detector_shift'')
                               | Some w \<Rightarrow>
                                   call_method HidraWorkspace_attributes ''get_detector_shift''
                                     (Inr (get_detector_shift w)))
                          | UseWorkspaceShift False \<Rightarrow> Inr None)
                    of Inl e \<Rightarrow> (Inl e, self)
                     | Inr det_pos_shift \<Rightarrow>
                         (case workspace of
                            None \<Rightarrow> (Inl (AttributeError ''get_subruns''), self)
                          | Some w \<Rightarrow>
                              (case call_method HidraWorkspace_attributes ''get_subruns''
                                      (get_subruns nis w) of
                                 Inl e \<Rightarrow> (Inl e, self)
                               | Inr sub_runs \<Rightarrow>
                                   (case reduce_sub_runs nis chk u w det_pos_shift mask_id_vec
                                           sub_runs of
                                      (r, w1) \<Rightarrow>
                                        (r, self\<lparr>session_dict := (session_dict self)
                                                   (the key \<mapsto> w1)\<rparr>))))))"

text \<open>
  A session with one sub-run: three counts, a two-theta log value and the setup of the
  three-pixel detector.
\<close>

definition example_workspace :: HidraWorkspace where
  "example_workspace =
     HidraWorkspace_init\<lparr>raw_counts := [1 \<mapsto> [1, 2, 4]],
       sub_run_to_spectrum := Some [(1, 0)],
       instrument_setup := Some three_pixel_setup,
       sample_log_dict := [''2theta'' \<mapsto> [1 \<mapsto> - 90]]\<rparr>"

definition zero_rows :: "nat \<Rightarrow> nat \<Rightarrow> real" where
  "zero_rows i j = 0"

definition example_manager :: HB2BReductionManager where
  "example_manager =
     \<lparr>curr_workspace = Some ''session'', session_dict = [''session'' \<mapsto> example_workspace],
      loaded_mask_dict = Map.empty\<rparr>"

section \<open>Properties of the raw grid\<close>

lemma grid_shapeD:
  assumes "grid_shape R C g" "r < R"
  shows "length g = R" "length (g ! r) = C" "c < C \<Longrightarrow> length (g ! r ! c) = 3"
  using assms by (auto simp: grid_shape_def list_all_length)

lemma grid_shapeI:
  assumes "length g = R" "\<And>r. r < R \<Longrightarrow> length (g ! r) = C"
    "\<And>r c. r < R \<Longrightarrow> c < C \<Longrightarrow> length (g ! r ! c) = 3"
  shows "grid_shape R C g"
  using assms by (auto simp: grid_shape_def list_all_length)

lemma np_ndarray_shape: "grid_shape R C (np_ndarray u R C)"
  by (rule grid_shapeI) (simp_all add: np_ndarray_def)

lemma set_row_channel_shape:
  assumes "grid_shape R C g"
  shows "grid_shape R C (set_row_channel r k v g)"
proof (cases "r < length g")
  case True
  then show ?thesis
    using assms
    by (auto simp: grid_shape_def list_all_length set_row_channel_def nth_list_update)
next
  case False
  then show ?thesis using assms by (simp add: set_row_channel_def list_update_beyond)
qed

lemma set_column_channel_shape:
  assumes "grid_shape R C g"
  shows "grid_shape R C (set_column_channel c k v g)"
proof (rule grid_shapeI)
  show "length (set_column_channel c k v g) = R"
    using assms by (simp add: set_column_channel_def grid_shape_def)
next
  fix r assume "r < R"
  then show "length (set_column_channel c k v g ! r) = C"
    using grid_shapeD(1,2)[OF assms] by (simp add: set_column_channel_def)
next
  fix r j assume rj: "r < R" "j < C"
  have len: "length g = R" "length (g ! r) = C" "length (g ! r ! j) = 3"
    using grid_shapeD[OF assms rj(1)] rj(2) by auto
  show "length (set_column_channel c k v g ! r ! j) = 3"
  proof (cases "c = j")
    case True
    then show ?thesis using rj len by (simp add: set_column_channel_def)
  next
    case False
    then show ?thesis using rj len by (simp add: set_column_channel_def)
  qed
qed

lemma set_channel_shape:
  "grid_shape R C g \<Longrightarrow> grid_shape R C (set_channel k v g)"
  by (auto simp: grid_shape_def list_all_length set_channel_def)

lemma set_row_channel_nth:
  assumes "grid_shape R C g" "i < R" "j < C" "l < 3"
  shows "set_row_channel r k v g ! i ! j ! l = (if i = r \<and> l = k then v else g ! i ! j ! l)"
proof -
  have len: "length g = R" "length (g ! i) = C" "length (g ! i ! j) = 3"
    using grid_shapeD[OF assms(1,2)] assms(3) by auto
  show ?thesis
  proof (cases "i = r")
    case True
    then show ?thesis using assms len by (simp add: set_row_channel_def)
  next
    case False
    then show ?thesis using assms len by (simp add: set_row_channel_def)
  qed
qed

lemma set_column_channel_nth:
  assumes "grid_shape R C g" "i < R" "j < C" "l < 3"
  shows "set_column_channel c k v g ! i ! j ! l = (if j = c \<and> l = k then v else g ! i ! j ! l)"
proof -
  have len: "length g = R" "length (g ! i) = C" "length (g ! i ! j) = 3"
    using grid_shapeD[OF assms(1,2)] assms(3) by auto
  show ?thesis
  proof (cases "j = c")
    case True
    then show ?thesis using assms len by (simp add: set_column_channel_def)
  next
    case False
    then show ?thesis using assms len by (simp add: set_column_channel_def)
  qed
qed

lemma set_channel_nth:
  assumes "grid_shape R C g" "i < R" "j < C" "l < 3"
  shows "set_channel k v g ! i ! j ! l = (if l = k then v else g ! i ! j ! l)"
proof -
  have len: "length g = R" "length (g ! i) = C" "length (g ! i ! j) = 3"
    using grid_shapeD[OF assms(1,2)] assms(3) by auto
  show ?thesis using assms len by (simp add: set_channel_def)
qed

lemma fold_rows:
  assumes "grid_shape R C g" "n \<le> R"
  shows "grid_shape R C (fold (\<lambda>r. set_row_channel r k (f r)) [0..<n] g) \<and>
         (\<forall>i<R. \<forall>j<C. \<forall>l<3.
            fold (\<lambda>r. set_row_channel r k (f r)) [0..<n] g ! i ! j ! l =
              (if i < n \<and> l = k then f i else g ! i ! j ! l))"
  using assms(2)
proof (induction n)
  case 0
  then show ?case using assms(1) by simp
next
  case (Suc n)
  then have IH: "grid_shape R C (fold (\<lambda>r. set_row_channel r k (f r)) [0..<n] g)"
    "\<And>i j l. i < R \<Longrightarrow> j < C \<Longrightarrow> l < 3 \<Longrightarrow>
        fold (\<lambda>r. set_row_channel r k (f r)) [0..<n] g ! i ! j ! l =
          (if i < n \<and> l = k then f i else g ! i ! j ! l)"
    by simp_all
  show ?case
    using IH(2) by (auto simp: set_row_channel_shape[OF IH(1)] set_row_channel_nth[OF IH(1)])
qed

lemma fold_columns:
  assumes "grid_shape R C g" "n \<le> C"
  shows "grid_shape R C (fold (\<lambda>c. set_column_channel c k (f c)) [0..<n] g) \<and>
         (\<forall>i<R. \<forall>j<C. \<forall>l<3.
            fold (\<lambda>c. set_column_channel c k (f c)) [0..<n] g ! i ! j ! l =
              (if j < n \<and> l = k then f j else g ! i ! j ! l))"
  using assms(2)
proof (induction n)
  case 0
  then show ?case using assms(1) by simp
next
  case (Suc n)
  then have IH: "grid_shape R C (fold (\<lambda>c. set_column_channel c k (f c)) [0..<n] g)"
    "\<And>i j l. i < R \<Longrightarrow> j < C \<Longrightarrow> l < 3 \<Longrightarrow>
        fold (\<lambda>c. set_column_channel c k (f c)) [0..<n] g ! i ! j ! l =
          (if j < n \<and> l = k then f j else g ! i ! j ! l)"
    by simp_all
  show ?case
    using IH(2)
    by (auto simp: set_column_channel_shape[OF IH(1)] set_column_channel_nth[OF IH(1)])
qed

lemma pixel_eqI:
  assumes "length p = 3" "p ! 0 = x" "p ! 1 = y" "p ! 2 = z"
  shows "p = [x, y, z]"
proof (rule nth_equalityI)
  show "length p = length [x, y, z]" using assms by simp
next
  fix i assume "i < length p"
  then have "i = 0 \<or> i = 1 \<or> i = 2" using assms(1) by auto
  then show "p ! i = [x, y, z] ! i" using assms by auto
qed

lemma set_uncalibrated_pixels_shape:
  "grid_shape (detector_rows s) (detector_columns s) (set_uncalibrated_pixels u s)"
proof -
  define R C where "R = detector_rows s" and "C = detector_columns s"
  define fy where "fy = (\<lambda>i. - (real R * 0.5 - 0.5) * pixel_size_y s + real i * pixel_size_y s)"
  define fx where "fx = (\<lambda>j. (real C * 0.5 - 0.5) * pixel_size_x s - real j * pixel_size_x s)"
  define pm1 where "pm1 = fold (\<lambda>i. set_row_channel i 1 (fy i)) [0..<R] (np_ndarray u R C)"
  define pm2 where "pm2 = fold (\<lambda>j. set_column_channel j 0 (fx j)) [0..<C] pm1"
  have eq: "set_uncalibrated_pixels u s = set_channel 2 0 pm2"
    unfolding set_uncalibrated_pixels_def Let_def pm2_def pm1_def fx_def fy_def R_def C_def ..
  have s1: "grid_shape R C pm1"
    unfolding pm1_def
    using fold_rows[OF np_ndarray_shape order_refl, where k = 1 and f = fy] by (rule conjunct1)
  have s2: "grid_shape R C pm2"
    unfolding pm2_def
    using fold_columns[OF s1 order_refl, where k = 0 and f = fx] by (rule conjunct1)
  show ?thesis
    unfolding eq using set_channel_shape[OF s2] by (simp add: R_def C_def)
qed

lemma set_uncalibrated_pixels_nth:
  assumes "r < detector_rows s" "c < detector_columns s"
  shows "set_uncalibrated_pixels u s ! r ! c =
     [(real (detector_columns s) * 0.5 - 0.5) * pixel_size_x s - real c * pixel_size_x s,
      - (real (detector_rows s) * 0.5 - 0.5) * pixel_size_y s + real r * pixel_size_y s,
      0]"
proof -
  define R C where "R = detector_rows s" and "C = detector_columns s"
  define fy where "fy = (\<lambda>i. - (real R * 0.5 - 0.5) * pixel_size_y s + real i * pixel_size_y s)"
  define fx where "fx = (\<lambda>j. (real C * 0.5 - 0.5) * pixel_size_x s - real j * pixel_size_x s)"
  define pm1 where "pm1 = fold (\<lambda>i. set_row_channel i 1 (fy i)) [0..<R] (np_ndarray u R C)"
  define pm2 where "pm2 = fold (\<lambda>j. set_column_channel j 0 (fx j)) [0..<C] pm1"
  have rc: "r < R" "c < C" using assms by (simp_all add: R_def C_def)
  have eq: "set_uncalibrated_pixels u s = set_channel 2 0 pm2"
    unfolding set_uncalibrated_pixels_def Let_def pm2_def pm1_def fx_def fy_def R_def C_def ..
  have s1: "grid_shape R C pm1"
    and n1: "\<forall>i<R. \<forall>j<C. \<forall>l<3.
       pm1 ! i ! j ! l = (if i < R \<and> l = 1 then fy i else np_ndarray u R C ! i ! j ! l)"
    unfolding pm1_def
    using fold_rows[OF np_ndarray_shape order_refl, where k = 1 and f = fy] by simp_all
  have s2: "grid_shape R C pm2"
    and n2: "\<forall>i<R. \<forall>j<C. \<forall>l<3.
       pm2 ! i ! j ! l = (if j < C \<and> l = 0 then fx j else pm1 ! i ! j ! l)"
    unfolding pm2_def
    using fold_columns[OF s1 order_refl, where k = 0 and f = fx] by simp_all
  have len: "length (set_channel 2 0 pm2 ! r ! c) = 3"
    using grid_shapeD(3)[OF set_channel_shape[OF s2] rc] .
  have x: "set_channel 2 0 pm2 ! r ! c ! 0 = fx c"
    using set_channel_nth[OF s2 rc, of 0 2 0] n2 rc by simp
  have "pm2 ! r ! c ! 1 = pm1 ! r ! c ! 1" using n2 rc by simp
  also have "\<dots> = fy r" using n1 rc by simp
  finally have y: "set_channel 2 0 pm2 ! r ! c ! 1 = fy r"
    using set_channel_nth[OF s2 rc, of 1 2 0] by simp
  have z: "set_channel 2 0 pm2 ! r ! c ! 2 = 0"
    using set_channel_nth[OF s2 rc, of 2 2 0] by simp
  have "set_channel 2 0 pm2 ! r ! c = [fx c, fy r, 0]"
    using len x y z by (rule pixel_eqI)
  then show ?thesis
    unfolding eq fx_def fy_def R_def C_def .
qed

text \<open>
  C2, as amended. For every instrument setup with R rows, C columns and pixel sizes px,
  py, whatever the freshly allocated buffer held, the raw grid has shape (R, C, 3) and
  its entry at [r, c] is ((C*0.5-0.5)*px - c*px, -(R*0.5-0.5)*py + r*py, 0); channel Z is
  0 everywhere. Each step to the next column changes X by -px and each step to the next
  row changes Y by +py. If px is positive, X strictly decreases as the column index
  increases; if py is positive, Y strictly increases with the row index.
\<close>

theorem raw_grid_formula:
  fixes s :: InstrumentSetup and u :: "nat \<Rightarrow> nat \<Rightarrow> nat \<Rightarrow> real"
  defines "R \<equiv> detector_rows s" and "C \<equiv> detector_columns s"
    and "px \<equiv> pixel_size_x s" and "py \<equiv> pixel_size_y s"
  defines "g \<equiv> set_uncalibrated_pixels u s"
  shows "grid_shape R C g
    \<and> (\<forall>r<R. \<forall>c<C. g ! r ! c =
          [(real C * 0.5 - 0.5) * px - real c * px, - (real R * 0.5 - 0.5) * py + real r * py, 0])
    \<and> (\<forall>r<R. \<forall>c. Suc c < C \<longrightarrow> g ! r ! Suc c ! 0 = g ! r ! c ! 0 - px)
    \<and> (\<forall>r c. Suc r < R \<and> c < C \<longrightarrow> g ! Suc r ! c ! 1 = g ! r ! c ! 1 + py)
    \<and> (0 < px \<longrightarrow> (\<forall>r<R. \<forall>c<C. \<forall>c'<C. c < c' \<longrightarrow> g ! r ! c' ! 0 < g ! r ! c ! 0))
    \<and> (0 < py \<longrightarrow> (\<forall>r<R. \<forall>r'<R. \<forall>c<C. r < r' \<longrightarrow> g ! r ! c ! 1 < g ! r' ! c ! 1))
    \<and> (\<forall>r<R. \<forall>c<C. g ! r ! c ! 2 = 0)"
proof (intro conjI allI impI)
  show "grid_shape R C g"
    unfolding R_def C_def g_def by (rule set_uncalibrated_pixels_shape)
next
  fix r c assume "r < R" "c < C"
  then show "g ! r ! c =
      [(real C * 0.5 - 0.5) * px - real c * px, - (real R * 0.5 - 0.5) * py + real r * py, 0]"
    unfolding R_def C_def px_def py_def g_def by (rule set_uncalibrated_pixels_nth)
next
  fix r c assume "r < R" "Suc c < C"
  then show "g ! r ! Suc c ! 0 = g ! r ! c ! 0 - px"
    unfolding R_def C_def px_def g_def
    by (simp add: set_uncalibrated_pixels_nth algebra_simps)
next
  fix r c assume "Suc r < R \<and> c < C"
  then show "g ! Suc r ! c ! 1 = g ! r ! c ! 1 + py"
    unfolding R_def C_def py_def g_def
    by (simp add: set_uncalibrated_pixels_nth algebra_simps)
next
  fix r c c' assume "0 < px" "r < R" "c < C" "c' < C" "c < c'"
  then show "g ! r ! c' ! 0 < g ! r ! c ! 0"
    unfolding R_def C_def px_def g_def
    by (simp add: set_uncalibrated_pixels_nth)
next
  fix r r' c assume "0 < py" "r < R" "r' < R" "c < C" "r < r'"
  then show "g ! r ! c ! 1 < g ! r' ! c ! 1"
    unfolding R_def C_def py_def g_def
    by (simp add: set_uncalibrated_pixels_nth)
next
  fix r c assume "r < R" "c < C"
  then show "g ! r ! c ! 2 = 0"
    unfolding R_def C_def g_def
    by (simp add: set_uncalibrated_pixels_nth)
qed

theorem raw_grid_formula_witness:
  "(0::real) < 1 \<and>
   set_uncalibrated_pixels (\<lambda>r c k. 7)
     \<lparr>detector_rows = 2, detector_columns = 2, pixel_size_x = 1, pixel_size_y = 1,
      arm_length = 10\<rparr> ! 0 ! 1 = [- (1 / 2), - (1 / 2), 0] \<and>
   set_uncalibrated_pixels (\<lambda>r c k. 7)
     \<lparr>detector_rows = 2, detector_columns = 2, pixel_size_x = 1, pixel_size_y = 1,
      arm_length = 10\<rparr> ! 0 ! 1 ! 0 <
   set_uncalibrated_pixels (\<lambda>r c k. 7)
     \<lparr>detector_rows = 2, detector_columns = 2, pixel_size_x = 1, pixel_size_y = 1,
      arm_length = 10\<rparr> ! 0 ! 0 ! 0"
proof -
  let ?s = "\<lparr>detector_rows = 2, detector_columns = 2, pixel_size_x = 1, pixel_size_y = 1,
      arm_length = 10\<rparr>"
  let ?g = "set_uncalibrated_pixels (\<lambda>r c k. 7) ?s"
  note t = raw_grid_formula[of ?s "\<lambda>r c k. 7"]
  from t have a: "\<forall>r<2. \<forall>c<2. ?g ! r ! c = [(real 2 * 0.5 - 0.5) * 1 - real c * 1, - (real 2 * 0.5 - 0.5) * 1 + real r * 1, 0]"
    by simp
  from t have b: "\<forall>r<2. \<forall>c<2. \<forall>c'<2. c < c' \<longrightarrow> ?g ! r ! c' ! 0 < ?g ! r ! c ! 0"
    by simp
  have a1: "?g ! 0 ! 1 = [- (1 / 2), - (1 / 2), 0]"
    using a[rule_format, of 0 1] by simp
  have b1: "?g ! 0 ! 1 ! 0 < ?g ! 0 ! 0 ! 0"
    using b[rule_format, of 0 0 1] by simp
  show ?thesis using a1 b1 by simp
qed

text \<open>
  C2 as stated, for every instrument setup, fails where a pixel size is not positive; the
  constructor takes such a setup without any check. With two rows and two columns,
  pixel_size_x = 0 and pixel_size_y = -1/2, X is 0 in both columns, so it does not
  decrease with the column index, and Y falls from 1/4 in row 0 to -1/4 in row 1, so it
  does not increase with the row index.
\<close>

theorem raw_grid_monotonicity_counterexample:
  "set_uncalibrated_pixels zero_memory
     \<lparr>detector_rows = 2, detector_columns = 2, pixel_size_x = 0, pixel_size_y = - (1 / 2),
      arm_length = 10\<rparr> ! 0 ! 0 = [0, 1 / 4, 0]
   \<and> set_uncalibrated_pixels zero_memory
     \<lparr>detector_rows = 2, detector_columns = 2, pixel_size_x = 0, pixel_size_y = - (1 / 2),
      arm_length = 10\<rparr> ! 0 ! 1 = [0, 1 / 4, 0]
   \<and> set_uncalibrated_pixels zero_memory
     \<lparr>detector_rows = 2, detector_columns = 2, pixel_size_x = 0, pixel_size_y = - (1 / 2),
      arm_length = 10\<rparr> ! 1 ! 0 = [0, - (1 / 4), 0]
   \<and> \<not> set_uncalibrated_pixels zero_memory
         \<lparr>detector_rows = 2, detector_columns = 2, pixel_size_x = 0, pixel_size_y = - (1 / 2),
          arm_length = 10\<rparr> ! 0 ! 1 ! 0
       < set_uncalibrated_pixels zero_memory
         \<lparr>detector_rows = 2, detector_columns = 2, pixel_size_x = 0, pixel_size_y = - (1 / 2),
          arm_length = 10\<rparr> ! 0 ! 0 ! 0
   \<and> \<not> set_uncalibrated_pixels zero_memory
         \<lparr>detector_rows = 2, detector_columns = 2, pixel_size_x = 0, pixel_size_y = - (1 / 2),
          arm_length = 10\<rparr> ! 0 ! 0 ! 1
       < set_uncalibrated_pixels zero_memory
         \<lparr>detector_rows = 2, detector_columns = 2, pixel_size_x = 0, pixel_size_y = - (1 / 2),
          arm_length = 10\<rparr> ! 1 ! 0 ! 1"
proof -
  let ?s = "\<lparr>detector_rows = 2, detector_columns = 2, pixel_size_x = 0,
      pixel_size_y = - (1 / 2), arm_length = 10\<rparr>"
  let ?g = "set_uncalibrated_pixels zero_memory ?s"
  have a: "?g ! 0 ! 0 = [0, 1 / 4, 0]"
    using set_uncalibrated_pixels_nth[of 0 ?s 0 zero_memory] by simp
  have b: "?g ! 0 ! 1 = [0, 1 / 4, 0]"
    using set_uncalibrated_pixels_nth[of 0 ?s 1 zero_memory] by simp
  have c: "?g ! 1 ! 0 = [0, - (1 / 4), 0]"
    using set_uncalibrated_pixels_nth[of 1 ?s 0 zero_memory] by simp
  show ?thesis unfolding a b c by simp
qed

section \<open>Properties of the rotation and of build_instrument\<close>

lemma upt_3: "[0..<3] = [0, 1, 2]"
  by (simp add: upt_rec)

lemma np_zeros_like_shape: "grid_shape R C g \<Longrightarrow> grid_shape R C (np_zeros_like g)"
  by (auto simp: grid_shape_def list_all_length np_zeros_like_def)

lemma np_zeros_like_nth:
  assumes "grid_shape R C g" "r < R" "c < C" "l < 3"
  shows "np_zeros_like g ! r ! c ! l = 0"
proof -
  have len: "length g = R" "length (g ! r) = C" "length (g ! r ! c) = 3"
    using grid_shapeD[OF assms(1,2)] assms(3) by auto
  show ?thesis using assms len by (simp add: np_zeros_like_def)
qed

lemma add_scaled_channel_shape:
  assumes "grid_shape R C det" "grid_shape R C acc"
  shows "grid_shape R C (add_scaled_channel i m j det acc)"
proof (rule grid_shapeI)
  show "length (add_scaled_channel i m j det acc) = R"
    using assms by (simp add: add_scaled_channel_def grid_shape_def)
next
  fix r assume r: "r < R"
  show "length (add_scaled_channel i m j det acc ! r) = C"
    using grid_shapeD(1,2)[OF assms(1) r] grid_shapeD(1,2)[OF assms(2) r] r
    by (simp add: add_scaled_channel_def)
next
  fix r c assume rc: "r < R" "c < C"
  show "length (add_scaled_channel i m j det acc ! r ! c) = 3"
    using grid_shapeD[OF assms(1) rc(1)] grid_shapeD[OF assms(2) rc(1)] rc
    by (simp add: add_scaled_channel_def)
qed

lemma add_scaled_channel_nth:
  assumes "grid_shape R C det" "grid_shape R C acc" "r < R" "c < C" "l < 3"
  shows "add_scaled_channel i m j det acc ! r ! c ! l =
     (if l = i then acc ! r ! c ! l + m * det ! r ! c ! j else acc ! r ! c ! l)"
  using grid_shapeD[OF assms(1,3)] grid_shapeD[OF assms(2,3)] assms(3,4,5)
  by (simp add: add_scaled_channel_def)

lemma rotate_detector_shape:
  assumes "grid_shape R C det"
  shows "grid_shape R C (rotate_detector det M)"
  unfolding rotate_detector_def upt_3
  by (simp add: add_scaled_channel_shape assms np_zeros_like_shape)

lemma rotate_detector_nth:
  assumes "grid_shape R C det" "r < R" "c < C"
  shows "rotate_detector det M ! r ! c = spec_rotate_pixel M (det ! r ! c)"
proof -
  note sh = add_scaled_channel_shape[OF assms(1)]
  note z = np_zeros_like_shape[OF assms(1)]
  have len: "length (rotate_detector det M ! r ! c) = 3"
    using grid_shapeD(3)[OF rotate_detector_shape[OF assms(1)] assms(2,3)] .
  have ch: "rotate_detector det M ! r ! c ! l =
      M ! l ! 0 * det ! r ! c ! 0 + M ! l ! 1 * det ! r ! c ! 1 + M ! l ! 2 * det ! r ! c ! 2"
    if "l = 0 \<or> l = 1 \<or> l = 2" for l
    unfolding rotate_detector_def upt_3
    using assms(2,3) that
    by (auto simp: add_scaled_channel_nth[OF assms(1)] sh z np_zeros_like_nth[OF assms(1)])
  have "rotate_detector det M ! r ! c =
     [M ! 0 ! 0 * det ! r ! c ! 0 + M ! 0 ! 1 * det ! r ! c ! 1 + M ! 0 ! 2 * det ! r ! c ! 2,
      M ! 1 ! 0 * det ! r ! c ! 0 + M ! 1 ! 1 * det ! r ! c ! 1 + M ! 1 ! 2 * det ! r ! c ! 2,
      M ! 2 ! 0 * det ! r ! c ! 0 + M ! 2 ! 1 * det ! r ! c ! 1 + M ! 2 ! 2 * det ! r ! c ! 2]"
    using len ch[of 0] ch[of 1] ch[of 2] by (intro pixel_eqI) simp_all
  also have "\<dots> = spec_rotate_pixel M (det ! r ! c)"
    unfolding spec_rotate_pixel_def upt_3 by simp
  finally show ?thesis .
qed

lemma build_instrument_unfold:
  "build_instrument t cal (h, self) =
     (let g0 = h ! raw_pixel_matrix self; g1 = shifted_grid cal g0
      in if g1 = [] \<or> hd g1 = []
         then (Inl IndexError, h @ [g1], self\<lparr>pixel_matrix := Some (length h)\<rparr>)
         else (Inr (length h + 2),
               h @ [g1, calibrated_grid (init_setup self) cal g0,
                    posed_grid (init_setup self) t cal g0],
               self\<lparr>pixel_matrix := Some (length h + 2)\<rparr>))"
  unfolding build_instrument_def alloc_def Let_def shifted_grid_def calibrated_grid_def
    posed_grid_def
  by (simp add: nth_append list_update_append)

lemma generate_rotation_matrix_spec:
  "generate_rotation_matrix ax ay az = spec_calibration_rotation ax ay az"
  unfolding generate_rotation_matrix_def spec_calibration_rotation_def matrix_mul_def Let_def
    upt_3 cal_rotation_matrix_x_def cal_rotation_matrix_y_def cal_rotation_matrix_z_def
  by (simp add: algebra_simps)

lemma add_to_channel_shape:
  "grid_shape R C g \<Longrightarrow> grid_shape R C (add_to_channel k v g)"
  by (auto simp: grid_shape_def list_all_length add_to_channel_def)

lemma add_to_channel_nth:
  assumes "grid_shape R C g" "r < R" "c < C"
  shows "add_to_channel k v g ! r ! c = (g ! r ! c)[k := g ! r ! c ! k + v]"
  using grid_shapeD(1,2)[OF assms(1,2)] assms(2,3)
  by (simp add: add_to_channel_def)

lemma length_3E:
  assumes "length (p :: 'a list) = 3"
  obtains x y z where "p = [x, y, z]"
  using assms by (auto simp: length_Suc_conv numeral_3_eq_3)

lemma spec_rotate_pixel_length: "length (spec_rotate_pixel M v) = 3"
  by (simp add: spec_rotate_pixel_def)

lemma shifted_grid_shape: "grid_shape R C g \<Longrightarrow> grid_shape R C (shifted_grid cal g)"
  by (simp add: shifted_grid_def add_to_channel_shape)

lemma calibrated_grid_shape:
  "grid_shape R C g \<Longrightarrow> grid_shape R C (calibrated_grid setup cal g)"
  by (simp add: calibrated_grid_def add_to_channel_shape rotate_detector_shape shifted_grid_shape)

lemma posed_grid_shape: "grid_shape R C g \<Longrightarrow> grid_shape R C (posed_grid setup t cal g)"
  by (simp add: posed_grid_def rotate_detector_shape calibrated_grid_shape)

lemma shifted_grid_nth:
  assumes "grid_shape R C g" "r < R" "c < C"
  shows "shifted_grid cal g ! r ! c =
     [g ! r ! c ! 0 + center_shift_x cal, g ! r ! c ! 1 + center_shift_y cal, g ! r ! c ! 2]"
proof -
  obtain x y z where p: "g ! r ! c = [x, y, z]"
    using grid_shapeD(3)[OF assms] by (rule length_3E)
  show ?thesis
    unfolding shifted_grid_def
    by (simp add: add_to_channel_nth[OF add_to_channel_shape[OF assms(1)] assms(2,3)]
        add_to_channel_nth[OF assms] p)
qed

lemma calibrated_grid_nth:
  assumes "grid_shape R C g" "r < R" "c < C"
  shows "calibrated_grid setup cal g ! r ! c =
     (let p2 = spec_rotate_pixel
                 (spec_calibration_rotation (rotation_x cal * pi / 180)
                    (rotation_y cal * pi / 180) (rotation_z cal * pi / 180))
                 (shifted_grid cal g ! r ! c)
      in [p2 ! 0, p2 ! 1, p2 ! 2 + (arm_length setup + center_shift_z cal)])"
proof -
  let ?M = "spec_calibration_rotation (rotation_x cal * pi / 180)
                    (rotation_y cal * pi / 180) (rotation_z cal * pi / 180)"
  obtain x y z where p: "spec_rotate_pixel ?M (shifted_grid cal g ! r ! c) = [x, y, z]"
    using spec_rotate_pixel_length by (rule length_3E)
  note sh = shifted_grid_shape[OF assms(1)]
  show ?thesis
    unfolding calibrated_grid_def generate_rotation_matrix_spec Let_def
    by (simp add: add_to_channel_nth[OF rotate_detector_shape[OF sh] assms(2,3)]
        rotate_detector_nth[OF sh assms(2,3)] p)
qed

lemma posed_grid_nth:
  assumes "grid_shape R C g" "r < R" "c < C"
  shows "posed_grid setup t cal g ! r ! c = spec_pose setup t cal (g ! r ! c)"
  unfolding posed_grid_def spec_pose_def Let_def
  by (simp add: rotate_detector_nth[OF calibrated_grid_shape[OF assms(1)] assms(2,3)]
      calibrated_grid_nth[OF assms] shifted_grid_nth[OF assms] Let_def)

lemma grid_shape_0: "grid_shape 0 C g \<Longrightarrow> g = []"
  by (simp add: grid_shape_def)

lemma grid_shape_hd:
  assumes "grid_shape R C g" "0 < R"
  shows "g \<noteq> []" "length (hd g) = C"
proof -
  show ne: "g \<noteq> []" using assms by (auto simp: grid_shape_def)
  show "length (hd g) = C"
    using grid_shapeD(2)[OF assms] ne by (simp add: hd_conv_nth)
qed

lemma shifted_grid_empty_iff:
  assumes "grid_shape R C g"
  shows "(shifted_grid cal g = [] \<or> hd (shifted_grid cal g) = []) \<longleftrightarrow> R = 0 \<or> C = 0"
proof (cases "R = 0")
  case True
  then show ?thesis using grid_shape_0 shifted_grid_shape[OF assms] by auto
next
  case False
  then have "0 < R" by simp
  from grid_shape_hd[OF shifted_grid_shape[OF assms] this, of cal] False
  show ?thesis by auto
qed

lemma build_instrument_pose:
  assumes "grid_shape R C (h ! raw_pixel_matrix self)" "0 < R" "0 < C"
  shows "\<exists>a h'. build_instrument t cal (h, self) = (Inr a, h', self\<lparr>pixel_matrix := Some a\<rparr>)
      \<and> grid_shape R C (h' ! a)
      \<and> (\<forall>r<R. \<forall>c<C. h' ! a ! r ! c =
            spec_pose (init_setup self) t cal (h ! raw_pixel_matrix self ! r ! c))"
proof -
  let ?g0 = "h ! raw_pixel_matrix self"
  let ?h' = "h @ [shifted_grid cal ?g0, calibrated_grid (init_setup self) cal ?g0,
                    posed_grid (init_setup self) t cal ?g0]"
  have ne: "\<not> (shifted_grid cal ?g0 = [] \<or> hd (shifted_grid cal ?g0) = [])"
    using shifted_grid_empty_iff[OF assms(1)] assms(2,3) by simp
  have b: "build_instrument t cal (h, self) =
      (Inr (length h + 2), ?h', self\<lparr>pixel_matrix := Some (length h + 2)\<rparr>)"
    using ne by (simp add: build_instrument_unfold Let_def)
  have n: "?h' ! (length h + 2) = posed_grid (init_setup self) t cal ?g0"
    by (simp add: nth_append)
  have sh: "grid_shape R C (?h' ! (length h + 2))"
    using posed_grid_shape[OF assms(1)] by (simp only: n)
  have px: "\<forall>r<R. \<forall>c<C. ?h' ! (length h + 2) ! r ! c =
            spec_pose (init_setup self) t cal (h ! raw_pixel_matrix self ! r ! c)"
    using posed_grid_nth[OF assms(1)] by (simp only: n) simp
  from b sh px show ?thesis by blast
qed

lemma instrument_init_unfold:
  "instrument_init u s h =
     (h @ [set_uncalibrated_pixels u s],
      \<lparr>init_setup = s, raw_pixel_matrix = length h, pixel_matrix = None\<rparr>)"
  by (simp add: instrument_init_def alloc_def)

text \<open>
  C1. For every raw pixel grid, calibration and two-theta value, build_instrument is to
  produce the pose by the sequence: copy, shift X and Y, rotate by Rx Ry Rz, push along Z,
  rotate by Ry(two-theta). On a grid with at least one row and one column it does
  (\<open>build_instrument_pose\<close>). On a freshly constructed instrument whose detector has no
  rows or no columns it does not: the call raises IndexError at the debugging print of
  the lower left pixel, before any rotation, and it raises IndexError in no other case.
\<close>

theorem build_instrument_empty_detector:
  "fst (build_instrument t cal (instrument_init u s h)) = Inl IndexError
     \<longleftrightarrow> detector_rows s = 0 \<or> detector_columns s = 0"
  using shifted_grid_empty_iff[OF set_uncalibrated_pixels_shape, of cal u s]
  by (simp add: instrument_init_unfold build_instrument_unfold Let_def)

lemma build_instrument_frame:
  assumes "raw_pixel_matrix self < length h"
    and "build_instrument t cal (h, self) = (res, h', self')"
  shows "raw_pixel_matrix self' = raw_pixel_matrix self"
    and "init_setup self' = init_setup self"
    and "length h \<le> length h'"
    and "\<forall>a<length h. h' ! a = h ! a"
  using assms
  by (auto simp: build_instrument_unfold Let_def nth_append split: if_splits)

lemma build_instrument_calls_frame:
  assumes "raw_pixel_matrix self < length h"
  shows "raw_pixel_matrix (snd (build_instrument_calls calls (h, self))) = raw_pixel_matrix self
     \<and> length h \<le> length (fst (build_instrument_calls calls (h, self)))
     \<and> (\<forall>a<length h. fst (build_instrument_calls calls (h, self)) ! a = h ! a)"
  using assms
proof (induction calls arbitrary: h self)
  case Nil
  then show ?case by (simp add: build_instrument_calls_def)
next
  case (Cons call calls)
  obtain t cal where call: "call = (t, cal)" by (cases call)
  obtain res h1 self1 where b: "build_instrument t cal (h, self) = (res, h1, self1)"
    by (cases "build_instrument t cal (h, self)")
  note f = build_instrument_frame[OF Cons.prems b]
  have step: "build_instrument_calls (call # calls) (h, self) = build_instrument_calls calls (h1, self1)"
    by (simp add: build_instrument_calls_def call b)
  have "raw_pixel_matrix self1 < length h1" using f Cons.prems by simp
  from Cons.IH[OF this] show ?case
    unfolding step using f by auto
qed

text \<open>
  C9. The raw pixel grid built at construction is never mutated: build_instrument works
  on a copy in a fresh store entry, so after any sequence of build_instrument calls,
  with any two-theta and calibration values and whatever each call returned, the
  instrument still refers to the same raw array and that array is the one the
  constructor built.
\<close>

theorem raw_pixel_matrix_never_mutated:
  fixes calls :: "(real \<times> ResidualStressInstrumentCalibration) list"
    and u :: "nat \<Rightarrow> nat \<Rightarrow> nat \<Rightarrow> real" and s :: InstrumentSetup and h :: store
  defines "st0 \<equiv> instrument_init u s h"
  defines "st \<equiv> build_instrument_calls calls st0"
  shows "raw_pixel_matrix (snd st) = raw_pixel_matrix (snd st0)
     \<and> fst st ! raw_pixel_matrix (snd st) = fst st0 ! raw_pixel_matrix (snd st0)
     \<and> fst st ! raw_pixel_matrix (snd st) = set_uncalibrated_pixels u s"
proof -
  let ?self = "\<lparr>init_setup = s, raw_pixel_matrix = length h, pixel_matrix = None\<rparr>"
  let ?h = "h @ [set_uncalibrated_pixels u s]"
  have st0: "st0 = (?h, ?self)" by (simp add: st0_def instrument_init_unfold)
  have lt: "raw_pixel_matrix ?self < length ?h" by simp
  from build_instrument_calls_frame[OF lt, of calls]
  show ?thesis unfolding st_def st0 by simp
qed

lemma concat_uniform_nth:
  assumes "list_all (\<lambda>xs. length xs = n) xss" "c < length xss" "r < n"
  shows "concat xss ! (r + n * c) = xss ! c ! r"
  using assms
proof (induction xss arbitrary: c)
  case Nil
  then show ?case by simp
next
  case (Cons xs xss)
  show ?case
  proof (cases c)
    case 0
    then show ?thesis using Cons.prems by (simp add: nth_append)
  next
    case (Suc c')
    have "r + n * c = length xs + (r + n * c')" using Cons.prems(1) Suc by simp
    then have "concat (xs # xss) ! (r + n * c) = concat xss ! (r + n * c')"
      by (simp add: nth_append)
    also have "\<dots> = xss ! c' ! r" using Cons.IH[of c'] Cons.prems Suc by simp
    finally show ?thesis using Suc by simp
  qed
qed

lemma concat_uniform_length:
  "list_all (\<lambda>xs. length xs = n) xss \<Longrightarrow> length (concat xss) = n * length xss"
  by (induction xss) simp_all

lemma transpose_102_grid:
  assumes "grid_shape R C m" "0 < R"
  shows "transpose_102 m = map (\<lambda>c. map (\<lambda>r. m ! r ! c) [0..<R]) [0..<C]"
proof -
  obtain row rest where m: "m = row # rest"
    using grid_shape_hd(1)[OF assms] by (cases m) auto
  have "length row = C" using grid_shape_hd(2)[OF assms] m by simp
  moreover have "length m = R" using assms(1) by (simp add: grid_shape_def)
  ultimately show ?thesis by (simp add: transpose_102_def m)
qed

lemma get_pixel_array_grid:
  assumes "pixel_matrix self = Some a" "grid_shape R C (h ! a)"
  shows "\<exists>arr. get_pixel_array (h, self) = Inr arr \<and> length arr = R * C
           \<and> list_all (\<lambda>p. length p = 3) arr
           \<and> (\<forall>row<R. \<forall>col<C. arr ! (row + R * col) = h ! a ! row ! col)"
proof -
  let ?m = "h ! a"
  have ok: "list_all (list_all (\<lambda>p. length p = 3)) ?m"
    using assms(2) by (auto simp: grid_shape_def list_all_length)
  have g: "get_pixel_array (h, self) = Inr (concat (transpose_102 ?m))"
    using assms(1) ok by (simp add: get_pixel_array_def)
  show ?thesis
  proof (cases "R = 0")
    case True
    then have "?m = []" using assms(2) grid_shape_0 by simp
    then show ?thesis using g True by (simp add: transpose_102_def)
  next
    case False
    then have R: "0 < R" by simp
    let ?t = "map (\<lambda>c. map (\<lambda>r. ?m ! r ! c) [0..<R]) [0..<C]"
    have t: "transpose_102 ?m = ?t" by (rule transpose_102_grid[OF assms(2) R])
    have u: "list_all (\<lambda>xs. length xs = R) ?t" by (simp add: list_all_length)
    have len: "length (concat ?t) = R * C"
      using concat_uniform_length[OF u] by simp
    have nth: "\<forall>row<R. \<forall>col<C. concat ?t ! (row + R * col) = ?m ! row ! col"
      using concat_uniform_nth[OF u] by simp
    have "\<And>p. p \<in> set (concat ?t) \<Longrightarrow> length p = 3"
      using grid_shapeD(3)[OF assms(2)] by auto
    then have l3: "list_all (\<lambda>p. length p = 3) (concat ?t)"
      by (simp add: list_all_iff)
    show ?thesis using g len nth l3 unfolding t by blast
  qed
qed

text \<open>
  C4. Once the instrument holds a pose grid of shape (rows, columns, 3), get_pixel_array
  returns an array of shape (rows * columns, 3) whose element at the linear index
  row + rows * column is the element [row, column] of the grid that get_pixel_matrix
  returns: the flattening is column-major over the grid.
\<close>

theorem flattened_pixel_order:
  assumes "pixel_matrix self = Some a" "grid_shape rows columns (h ! a)"
  shows "\<exists>m arr. get_pixel_matrix (h, self) = Inr m \<and> get_pixel_array (h, self) = Inr arr
           \<and> length arr = rows * columns \<and> list_all (\<lambda>p. length p = 3) arr
           \<and> (\<forall>row<rows. \<forall>column<columns. arr ! (row + rows * column) = m ! row ! column)"
proof -
  have m: "get_pixel_matrix (h, self) = Inr (h ! a)"
    using assms(1) by (simp add: get_pixel_matrix_def)
  from get_pixel_array_grid[OF assms] m show ?thesis by blast
qed

theorem flattened_pixel_order_witness:
  "pixel_matrix \<lparr>init_setup = \<lparr>detector_rows = 2, detector_columns = 2, pixel_size_x = 1,
        pixel_size_y = 1, arm_length = 10\<rparr>, raw_pixel_matrix = 0, pixel_matrix = Some 1\<rparr> = Some 1
   \<and> grid_shape 2 2 ([[], [[[1, 2, 3], [4, 5, 6]], [[7, 8, 9], [10, 11, 12]]]] ! 1)
   \<and> (\<exists>m arr.
         get_pixel_matrix ([[], [[[1, 2, 3], [4, 5, 6]], [[7, 8, 9], [10, 11, 12]]]],
           \<lparr>init_setup = \<lparr>detector_rows = 2, detector_columns = 2, pixel_size_x = 1,
              pixel_size_y = 1, arm_length = 10\<rparr>, raw_pixel_matrix = 0,
             pixel_matrix = Some 1\<rparr>) = Inr m
       \<and> get_pixel_array ([[], [[[1, 2, 3], [4, 5, 6]], [[7, 8, 9], [10, 11, 12]]]],
           \<lparr>init_setup = \<lparr>detector_rows = 2, detector_columns = 2, pixel_size_x = 1,
              pixel_size_y = 1, arm_length = 10\<rparr>, raw_pixel_matrix = 0,
             pixel_matrix = Some 1\<rparr>) = Inr arr
       \<and> length arr = 4 \<and> arr ! 1 = m ! 1 ! 0 \<and> arr ! 2 = m ! 0 ! 1)"
proof -
  let ?self = "\<lparr>init_setup = \<lparr>detector_rows = 2, detector_columns = 2, pixel_size_x = 1,
        pixel_size_y = 1, arm_length = 10\<rparr>, raw_pixel_matrix = 0, pixel_matrix = Some 1\<rparr>"
  let ?h = "[[], [[[1, 2, 3], [4, 5, 6]], [[7, 8, 9], [10, 11, 12 :: real]]]]"
  have h1: "pixel_matrix ?self = Some 1" by simp
  have h2: "grid_shape 2 2 (?h ! 1)" by (simp add: grid_shape_def)
  from flattened_pixel_order[OF h1 h2] obtain m arr where
    r: "get_pixel_matrix (?h, ?self) = Inr m" "get_pixel_array (?h, ?self) = Inr arr"
      "length arr = 2 * 2"
      "\<forall>row<2. \<forall>column<2. arr ! (row + 2 * column) = m ! row ! column"
    by blast
  have "arr ! 1 = m ! 1 ! 0" using r(4)[rule_format, of 1 0] by simp
  moreover have "arr ! 2 = m ! 0 ! 1" using r(4)[rule_format, of 0 1] by (simp add: numeral_2_eq_2)
  ultimately show ?thesis using h1 h2 r(1,2,3) by simp
qed

section \<open>Properties of the angle conversion\<close>

lemma component_le_norm:
  fixes x y z :: real
  shows "\<bar>z\<bar> \<le> sqrt (x\<^sup>2 + y\<^sup>2 + z\<^sup>2)"
proof -
  have "z\<^sup>2 \<le> x\<^sup>2 + y\<^sup>2 + z\<^sup>2" by simp
  then have "sqrt (z\<^sup>2) \<le> sqrt (x\<^sup>2 + y\<^sup>2 + z\<^sup>2)" by (rule real_sqrt_le_mono)
  then show ?thesis by simp
qed

lemma sum3_power2_eq_zero_iff:
  fixes x y z :: real
  shows "x\<^sup>2 + y\<^sup>2 + z\<^sup>2 = 0 \<longleftrightarrow> x = 0 \<and> y = 0 \<and> z = 0"
  by (simp add: add_nonneg_eq_0_iff)

lemma two_theta_of_pixel_spec: "two_theta_of_pixel v = spec_two_theta v"
proof -
  define n where "n = sqrt ((v ! 0)\<^sup>2 + (v ! 1)\<^sup>2 + (v ! 2)\<^sup>2)"
  show ?thesis
  proof (cases "n = 0")
    case True
    then have "(v ! 0)\<^sup>2 + (v ! 1)\<^sup>2 + (v ! 2)\<^sup>2 = 0" by (simp add: n_def)
    then have z: "v ! 0 = 0" "v ! 1 = 0" "v ! 2 = 0"
      by (simp_all add: sum3_power2_eq_zero_iff)
    show ?thesis
      unfolding two_theta_of_pixel_def spec_two_theta_def Let_def upt_3 k_in_vec_def
      by (simp add: z np_true_divide_def)
  next
    case False
    have pos: "0 < n" using False by (simp add: n_def less_le)
    have "\<bar>v ! 2\<bar> \<le> n" unfolding n_def by (rule component_le_norm)
    then have b: "- 1 \<le> v ! 2 / n" "v ! 2 / n \<le> 1"
      using pos by (simp_all add: field_simps abs_le_iff)
    show ?thesis
      unfolding two_theta_of_pixel_def spec_two_theta_def Let_def upt_3 k_in_vec_def
        n_def[symmetric]
      using False b pi_neq_zero by (simp add: np_true_divide_def)
  qed
qed

lemma convert_to_2theta_matrix_spec:
  assumes "list_all (list_all (\<lambda>p. length p = 3)) g"
  shows "convert_to_2theta_matrix g = Inr (map (map spec_two_theta) g)"
proof -
  have "list_all (list_all (\<lambda>p. 3 \<le> length p)) g"
    using assms by (auto simp: list_all_iff)
  then show ?thesis
    by (simp add: convert_to_2theta_matrix_def two_theta_of_pixel_spec[abs_def])
qed

lemma convert_to_2theta_array_spec:
  assumes "list_all (\<lambda>p. length p = 3) a"
  shows "convert_to_2theta_array a = Inr (map spec_two_theta a)"
proof -
  have "list_all (\<lambda>p. 3 \<le> length p) a"
    using assms by (auto simp: list_all_iff)
  then show ?thesis
    by (simp add: convert_to_2theta_array_def two_theta_of_pixel_spec[abs_def])
qed

text \<open>
  C5. For every position array of shape (rows, cols, 3) or (pixels, 3) the conversion
  returns, without raising, an array of the same shape minus the last axis whose every
  entry is arccos(vz / sqrt(vx^2 + vy^2 + vz^2)) * 180 / pi for the pixel (vx, vy, vz);
  for a zero-length position vector the entry is nan.
\<close>

theorem convert_to_2theta_angles:
  "(list_all (list_all (\<lambda>p. length p = 3)) g \<longrightarrow>
      (\<exists>t. convert_to_2theta (Dim3 g) = Inr (Angles2 t) \<and> length t = length g
          \<and> (\<forall>r<length g. length (t ! r) = length (g ! r)
               \<and> (\<forall>c<length (g ! r). t ! r ! c = spec_two_theta (g ! r ! c)))))
   \<and> (list_all (\<lambda>p. length p = 3) a \<longrightarrow>
      (\<exists>t. convert_to_2theta (Dim2 a) = Inr (Angles1 t) \<and> length t = length a
          \<and> (\<forall>i<length a. t ! i = spec_two_theta (a ! i))))
   \<and> spec_two_theta [0, 0, 0] = NaN
   \<and> ((v ! 0)\<^sup>2 + (v ! 1)\<^sup>2 + (v ! 2)\<^sup>2 = 0 \<longrightarrow> spec_two_theta v = NaN)
   \<and> ((v ! 0)\<^sup>2 + (v ! 1)\<^sup>2 + (v ! 2)\<^sup>2 \<noteq> 0 \<longrightarrow>
        spec_two_theta v
          = Fin (arccos (v ! 2 / sqrt ((v ! 0)\<^sup>2 + (v ! 1)\<^sup>2 + (v ! 2)\<^sup>2)) * 180 / pi))"
proof (intro conjI impI)
  assume "list_all (list_all (\<lambda>p. length p = 3)) g"
  then show "\<exists>t. convert_to_2theta (Dim3 g) = Inr (Angles2 t) \<and> length t = length g
          \<and> (\<forall>r<length g. length (t ! r) = length (g ! r)
               \<and> (\<forall>c<length (g ! r). t ! r ! c = spec_two_theta (g ! r ! c)))"
    by (simp add: convert_to_2theta_matrix_spec)
next
  assume "list_all (\<lambda>p. length p = 3) a"
  then show "\<exists>t. convert_to_2theta (Dim2 a) = Inr (Angles1 t) \<and> length t = length a
          \<and> (\<forall>i<length a. t ! i = spec_two_theta (a ! i))"
    by (simp add: convert_to_2theta_array_spec)
next
  show "spec_two_theta [0, 0, 0] = NaN" by (simp add: spec_two_theta_def)
next
  assume "(v ! 0)\<^sup>2 + (v ! 1)\<^sup>2 + (v ! 2)\<^sup>2 = 0"
  then show "spec_two_theta v = NaN" by (simp add: spec_two_theta_def)
next
  assume "(v ! 0)\<^sup>2 + (v ! 1)\<^sup>2 + (v ! 2)\<^sup>2 \<noteq> 0"
  then show "spec_two_theta v
          = Fin (arccos (v ! 2 / sqrt ((v ! 0)\<^sup>2 + (v ! 1)\<^sup>2 + (v ! 2)\<^sup>2)) * 180 / pi)"
    by (simp add: spec_two_theta_def)
qed

theorem convert_to_2theta_angles_witness:
  "list_all (list_all (\<lambda>p. length p = 3)) [[[0, 0, 1], [0, 0, 0 :: real]]]
   \<and> list_all (\<lambda>p. length p = 3) [[1, 0, 0], [0, 0, - 1 :: real]]
   \<and> convert_to_2theta (Dim3 [[[0, 0, 1], [0, 0, 0]]]) = Inr (Angles2 [[Fin 0, NaN]])
   \<and> convert_to_2theta (Dim2 [[1, 0, 0], [0, 0, - 1]]) = Inr (Angles1 [Fin 90, Fin 180])"
proof -
  have h1: "list_all (list_all (\<lambda>p. length p = 3)) [[[0, 0, 1], [0, 0, 0 :: real]]]" by simp
  have h2: "list_all (\<lambda>p. length p = 3) [[1, 0, 0], [0, 0, - 1 :: real]]" by simp
  note t = convert_to_2theta_angles[of "[[[0, 0, 1], [0, 0, 0]]]" "[[1, 0, 0], [0, 0, - 1]]"
      "[0, 0, 0]"]
  from t h1 obtain t3 where t3: "convert_to_2theta (Dim3 [[[0, 0, 1], [0, 0, 0]]]) = Inr (Angles2 t3)"
    "length t3 = 1" "length (t3 ! 0) = 2"
    "t3 ! 0 ! 0 = spec_two_theta [0, 0, 1]" "t3 ! 0 ! 1 = spec_two_theta [0, 0, 0]"
    by auto
  from t h2 obtain t2 where t2: "convert_to_2theta (Dim2 [[1, 0, 0], [0, 0, - 1]]) = Inr (Angles1 t2)"
    "length t2 = 2" "t2 ! 0 = spec_two_theta [1, 0, 0]" "t2 ! 1 = spec_two_theta [0, 0, - 1]"
    by auto
  have a: "spec_two_theta [0, 0, 1] = Fin 0" "spec_two_theta [0, 0, 0] = NaN"
    "spec_two_theta [1, 0, 0] = Fin 90" "spec_two_theta [0, 0, - 1] = Fin 180"
    by (simp_all add: spec_two_theta_def)
  have "t3 = [[Fin 0, NaN]]"
    using t3 a by (auto simp: length_Suc_conv numeral_2_eq_2)
  moreover have "t2 = [Fin 90, Fin 180]"
    using t2 a by (auto simp: length_Suc_conv numeral_2_eq_2)
  ultimately show ?thesis using h1 h2 t3(1) t2(1) by simp
qed

section \<open>Properties of the histogram reduction\<close>

lemma sum_list_add_at:
  fixes xs :: "real list"
  shows "i < length xs \<Longrightarrow> sum_list (xs[i := xs ! i + w]) = sum_list xs + w"
proof (induction xs arbitrary: i)
  case Nil
  then show ?case by simp
next
  case (Cons x xs)
  then show ?case by (cases i) simp_all
qed

lemma bincount_fold:
  fixes acc :: "real list"
  assumes "\<forall>i\<in>set indices. i < length acc" "length indices = length weights"
  shows "length (fold (\<lambda>(i, w) n. n[i := n ! i + w]) (zip indices weights) acc) = length acc
       \<and> sum_list (fold (\<lambda>(i, w) n. n[i := n ! i + w]) (zip indices weights) acc)
           = sum_list acc + sum_list weights"
  using assms
proof (induction indices arbitrary: weights acc)
  case Nil
  then show ?case by simp
next
  case (Cons i indices)
  then obtain w ws where w: "weights = w # ws" by (cases weights) auto
  have i: "i < length acc" using Cons.prems(1) by simp
  have "\<forall>j\<in>set indices. j < length (acc[i := acc ! i + w])" using Cons.prems(1) by simp
  moreover have "length indices = length ws" using Cons.prems(2) w by simp
  ultimately show ?case
    using Cons.IH[of "acc[i := acc ! i + w]" ws] sum_list_add_at[OF i, of w]
    by (simp add: w)
qed

lemma np_bincount_sum:
  assumes "\<forall>i\<in>set indices. i < n" "length indices = length weights"
  shows "length (np_bincount indices weights n) = n"
    and "sum_list (np_bincount indices weights n) = sum_list weights"
  using bincount_fold[of indices "replicate n 0" weights] assms
  by (simp_all add: np_bincount_def sum_list_replicate)

lemma bin_index_less:
  assumes "first_edge < last_edge" "first_edge \<le> x" "x \<le> last_edge" "0 < n"
  shows "bin_index first_edge last_edge n x < n"
proof -
  define t where "t = (x - first_edge) * (real n / (last_edge - first_edge))"
  have d: "0 < last_edge - first_edge" using assms(1) by simp
  have "(x - first_edge) / (last_edge - first_edge) \<le> 1"
    using assms d by (simp add: field_simps)
  then have "(x - first_edge) / (last_edge - first_edge) * real n \<le> 1 * real n"
    by (rule mult_right_mono) simp
  then have le: "t \<le> real n" by (simp add: t_def field_simps)
  then have "\<lfloor>t\<rfloor> \<le> int n" by (simp add: floor_le_iff)
  then have "nat \<lfloor>t\<rfloor> \<le> n" by simp
  then show ?thesis
    unfolding bin_index_def Let_def t_def[symmetric]
    using assms(4) by auto
qed

lemma fold_min_max:
  fixes x :: real
  shows "fold min xs x \<le> x \<and> x \<le> fold max xs x
       \<and> (\<forall>y\<in>set xs. fold min xs x \<le> y \<and> y \<le> fold max xs x)"
proof (induction xs arbitrary: x)
  case Nil
  then show ?case by simp
next
  case (Cons a xs)
  from Cons.IH[of "min a x"] Cons.IH[of "max a x"]
  show ?case by (auto simp: min_def max_def split: if_splits)
qed

lemma get_outer_edges_cases:
  assumes "get_outer_edges a hrange = Inr (first_edge, last_edge)"
  shows "first_edge < last_edge"
    and "hrange = Some (lo, hi) \<Longrightarrow> lo < hi \<Longrightarrow> first_edge = lo \<and> last_edge = hi"
    and "hrange = None \<Longrightarrow> list_all (in_range first_edge last_edge) a"
proof -
  show "first_edge < last_edge"
  proof (cases hrange)
    case None
    show ?thesis
    proof (cases "a = []")
      case True
      then show ?thesis using assms None by (simp add: get_outer_edges_def)
    next
      case False
      from fold_min_max[of "map the_fin (tl a)" "the_fin (hd a)"]
      have "fold min (map the_fin (tl a)) (the_fin (hd a))
              \<le> fold max (map the_fin (tl a)) (the_fin (hd a))" by linarith
      then show ?thesis
        using assms None False
        by (auto simp: get_outer_edges_def split: if_splits)
    qed
  next
    case (Some r)
    then show ?thesis
      using assms by (cases r) (auto simp: get_outer_edges_def split: if_splits)
  qed
next
  assume "hrange = Some (lo, hi)" "lo < hi"
  then show "first_edge = lo \<and> last_edge = hi"
    using assms by (auto simp: get_outer_edges_def split: if_splits)
next
  assume None: "hrange = None"
  show "list_all (in_range first_edge last_edge) a"
  proof (cases "a = []")
    case True
    then show ?thesis by simp
  next
    case False
    then obtain x xs where a: "a = x # xs" by (cases a) auto
    have fin: "list_all is_finite a"
      using assms None False by (auto simp: get_outer_edges_def split: if_splits)
    define mn where "mn = fold min (map the_fin xs) (the_fin x)"
    define mx where "mx = fold max (map the_fin xs) (the_fin x)"
    have b: "mn \<le> the_fin y \<and> the_fin y \<le> mx" if "y \<in> set a" for y
      using fold_min_max[of "map the_fin xs" "the_fin x"] that
      by (auto simp: a mn_def mx_def)
    have e: "first_edge \<le> mn \<and> mx \<le> last_edge"
      using assms None fin
      by (auto simp: get_outer_edges_def a mn_def mx_def split: if_splits)
    have "in_range first_edge last_edge y" if "y \<in> set a" for y
    proof -
      have "is_finite y" using fin that by (simp add: list_all_iff)
      then obtain v where "y = Fin v" by (cases y) auto
      then show ?thesis using b[OF that] e by simp
    qed
    then show ?thesis by (simp add: list_all_iff)
  qed
qed

lemma filter_all_zip_snd:
  assumes "list_all P a" "length w = length a"
  shows "map snd (filter (\<lambda>(x, c). P x) (zip a w)) = w"
proof -
  have "\<forall>p\<in>set (zip a w). (\<lambda>(x, c). P x) p"
    using assms(1) by (auto simp: list_all_iff dest: set_zip_leftD)
  then have "filter (\<lambda>(x, c). P x) (zip a w) = zip a w" by (simp only: filter_True)
  then show ?thesis using assms(2) by simp
qed

lemma np_histogram_sum:
  assumes "np_histogram a bins hrange weights = Inr (hist, bin_edges)"
  shows "\<exists>first_edge last_edge.
           get_outer_edges a hrange = Inr (first_edge, last_edge)
         \<and> bin_edges = np_linspace first_edge last_edge (nat bins)
         \<and> length hist = nat bins
         \<and> sum_list hist
             = sum_list (map snd (filter (\<lambda>(x, w). in_range first_edge last_edge x) (zip a weights)))"
proof -
  from assms have len: "length weights = length a" and bins: "1 \<le> bins"
    by (auto simp: np_histogram_def split: if_splits)
  from assms len bins obtain first_edge last_edge where
    oe: "get_outer_edges a hrange = Inr (first_edge, last_edge)"
    by (auto simp: np_histogram_def split: sum.splits)
  define keep where "keep = filter (\<lambda>(x, w). in_range first_edge last_edge x) (zip a weights)"
  define indices where
    "indices = map (\<lambda>(x, w). bin_index first_edge last_edge (nat bins) (the_fin x)) keep"
  have res: "hist = np_bincount indices (map snd keep) (nat bins)"
    "bin_edges = np_linspace first_edge last_edge (nat bins)"
    using assms len bins oe
    by (simp_all add: np_histogram_def Let_def keep_def indices_def)
  have lt: "first_edge < last_edge" using get_outer_edges_cases(1)[OF oe] .
  have "i < nat bins" if "i \<in> set indices" for i
  proof -
    from that obtain x w where xw: "(x, w) \<in> set keep"
      "i = bin_index first_edge last_edge (nat bins) (the_fin x)"
      by (auto simp: indices_def)
    then have "in_range first_edge last_edge x" by (auto simp: keep_def)
    then obtain v where "x = Fin v" "first_edge \<le> v" "v \<le> last_edge"
      by (cases x) auto
    then show ?thesis using bin_index_less[OF lt, of v "nat bins"] bins xw(2) by simp
  qed
  then have idx: "\<forall>i\<in>set indices. i < nat bins" by blast
  have l2: "length indices = length (map snd keep)" by (simp add: indices_def)
  from np_bincount_sum[OF idx l2] res oe show ?thesis
    by (auto simp: keep_def)
qed

lemma np_histogram_succeeds:
  assumes "length weights = length a" "1 \<le> bins" "lo < hi"
  shows "\<exists>hist. np_histogram a bins (Some (lo, hi)) weights
            = Inr (hist, np_linspace lo hi (nat bins))"
  using assms by (simp add: np_histogram_def get_outer_edges_def Let_def)

lemma raw_one: "set_uncalibrated_pixels zero_memory one_pixel_setup = [[[0, 0, 0]]]"
  by (simp add: set_uncalibrated_pixels_def one_pixel_setup_def np_ndarray_def Let_def
      set_row_channel_def set_column_channel_def set_channel_def upt_3 zero_memory_def)

lemma rot0: "generate_rotation_matrix 0 0 0 = [[1, 0, 0], [0, 1, 0], [0, 0, 1]]"
  by (simp add: generate_rotation_matrix_def matrix_mul_def cal_rotation_matrix_x_def
      cal_rotation_matrix_y_def cal_rotation_matrix_z_def upt_3 Let_def)

lemma one_pixel_arm: "arm_length one_pixel_setup = 1"
  by (simp add: one_pixel_setup_def)

lemma one_pixel_instrument_eq:
  "one_pixel_instrument =
     ([[[[0, 0, 0]]], [[[0, 0, 0]]], [[[0, 0, 1]]], [[[0, 0, 1]]]],
      \<lparr>init_setup = one_pixel_setup, raw_pixel_matrix = 0, pixel_matrix = Some 3\<rparr>)"
  unfolding one_pixel_instrument_def instrument_init_unfold build_instrument_unfold
  by (simp add: raw_one Let_def shifted_grid_def calibrated_grid_def posed_grid_def
      add_to_channel_def no_calibration_def rot0 rotate_detector_def upt_3 np_zeros_like_def
      add_scaled_channel_def cal_rotation_matrix_y_def one_pixel_arm)

lemma sum_list_filter_split:
  fixes f :: "'a \<Rightarrow> real"
  shows "sum_list (map f (filter P xs)) + sum_list (map f (filter (\<lambda>x. \<not> P x) xs))
           = sum_list (map f xs)"
  by (induction xs) simp_all

lemma two_theta_array_built:
  assumes "pixel_matrix self = Some a" "grid_shape R C (h ! a)"
  shows "\<exists>arr. get_pixel_array (h, self) = Inr arr
           \<and> two_theta_array (h, self) = Inr (map spec_two_theta arr)
           \<and> length arr = R * C"
proof -
  from get_pixel_array_grid[OF assms] obtain arr where
    arr: "get_pixel_array (h, self) = Inr arr" "length arr = R * C"
      "list_all (\<lambda>p. length p = 3) arr" by blast
  then show ?thesis
    by (simp add: two_theta_array_def convert_to_2theta_array_spec)
qed

lemma reduce_unfold:
  assumes "two_theta_array st = Inr tth" "length tth = length counts_array"
  shows "reduce_to_2theta_histogram chk st counts_array None num_bins x_range is_point_data =
     (case (case x_range of
              Some (lo, hi) \<Rightarrow>
                if lo \<ge> hi then Inl (RuntimeError ''X range is not allowed'') else Inr ()
            | None \<Rightarrow> Inr ())
      of Inl e \<Rightarrow> Inl e
       | Inr _ \<Rightarrow>
          (case np_histogram tth num_bins x_range counts_array of
             Inl e \<Rightarrow> Inl e
           | Inr (hist, bin_edges) \<Rightarrow>
               if is_point_data
               then Inr (butlast (map (\<lambda>e. e + (bin_edges ! 1 - bin_edges ! 0) * 0.5) bin_edges),
                         hist)
               else Inr (bin_edges, hist)))"
  using assms
  by (simp add: reduce_to_2theta_histogram_def Let_def split: sum.splits option.splits)

lemma reduce_sum_explicit_range:
  assumes tth: "two_theta_array st = Inr tth"
    and len: "length counts_array = length tth"
    and bins: "1 \<le> num_bins"
    and rng: "lo < hi"
  shows "\<exists>x hist.
       reduce_to_2theta_histogram chk st counts_array None num_bins (Some (lo, hi)) is_point_data
         = Inr (x, hist)
     \<and> length hist = nat num_bins
     \<and> sum_list hist
         = sum_list (map snd (filter (\<lambda>(a, c). in_range lo hi a) (zip tth counts_array)))"
proof -
  from np_histogram_succeeds[OF len bins rng] obtain hist where
    h: "np_histogram tth num_bins (Some (lo, hi)) counts_array
          = Inr (hist, np_linspace lo hi (nat num_bins))" by blast
  from np_histogram_sum[OF h] get_outer_edges_cases(2)[OF _ refl rng]
  have s: "length hist = nat num_bins"
    "sum_list hist
       = sum_list (map snd (filter (\<lambda>(a, c). in_range lo hi a) (zip tth counts_array)))"
    by auto
  show ?thesis
    using rng s by (simp add: reduce_unfold[OF tth len[symmetric]] h)
qed

lemma reduce_sum_default_range:
  assumes tth: "two_theta_array st = Inr tth"
    and len: "length counts_array = length tth"
    and bins: "1 \<le> num_bins"
    and fin: "list_all is_finite tth"
  shows "\<exists>x hist.
       reduce_to_2theta_histogram chk st counts_array None num_bins None is_point_data
         = Inr (x, hist)
     \<and> length hist = nat num_bins
     \<and> sum_list hist = sum_list counts_array"
proof -
  have "\<exists>p. get_outer_edges tth None = Inr p"
  proof (cases "tth = []")
    case True
    then show ?thesis by (simp add: get_outer_edges_def)
  next
    case False
    then show ?thesis
      using fin
      by (cases "fold min (map the_fin (tl tth)) (the_fin (hd tth))
                   = fold max (map the_fin (tl tth)) (the_fin (hd tth))")
        (simp_all add: get_outer_edges_def)
  qed
  then obtain first_edge last_edge where
    oe: "get_outer_edges tth None = Inr (first_edge, last_edge)" by auto
  obtain hist bin_edges where
    h: "np_histogram tth num_bins None counts_array = Inr (hist, bin_edges)"
    using len bins oe by (simp add: np_histogram_def Let_def)
  from np_histogram_sum[OF h] oe
  have s: "length hist = nat num_bins"
    "sum_list hist = sum_list (map snd (filter (\<lambda>(x, w). in_range first_edge last_edge x)
        (zip tth counts_array)))"
    by auto
  have "sum_list hist = sum_list counts_array"
    using filter_all_zip_snd[OF get_outer_edges_cases(3)[OF oe refl] len] s(2) by simp
  then show ?thesis
    using s(1) by (simp add: reduce_unfold[OF tth len[symmetric]] h)
qed

text \<open>
  C6. For every angle array and counts array of the same shape, a positive number of
  bins and a range lo < hi, the reduction without mask returns intensities whose sum is
  the sum of the counts of exactly the pixels whose angle lies in [lo, hi]: adding the
  counts of the excluded pixels gives the sum of all counts, so out-of-range pixels are
  dropped and not clipped into the boundary bins; when the range covers all angles the
  sum of the intensities is the sum of the input counts. The same holds for the default
  range, which covers all angles when they are finite.
\<close>

theorem histogram_sum_of_counts:
  assumes "two_theta_array st = Inr tth"
    and "length counts_array = length tth"
    and "1 \<le> num_bins"
  shows "(lo < hi \<longrightarrow>
       (\<exists>x hist.
          reduce_to_2theta_histogram chk st counts_array None num_bins (Some (lo, hi))
            is_point_data = Inr (x, hist)
        \<and> sum_list hist
            = sum_list (map snd (filter (\<lambda>(a, c). in_range lo hi a) (zip tth counts_array)))
        \<and> sum_list hist
            + sum_list (map snd (filter (\<lambda>(a, c). \<not> in_range lo hi a) (zip tth counts_array)))
            = sum_list counts_array
        \<and> (list_all (in_range lo hi) tth \<longrightarrow> sum_list hist = sum_list counts_array)))
     \<and> (list_all is_finite tth \<longrightarrow>
       (\<exists>x hist.
          reduce_to_2theta_histogram chk st counts_array None num_bins None is_point_data
            = Inr (x, hist)
        \<and> sum_list hist = sum_list counts_array))"
proof (intro conjI impI)
  assume rng: "lo < hi"
  from reduce_sum_explicit_range[OF assms rng] obtain x hist where
    r: "reduce_to_2theta_histogram chk st counts_array None num_bins (Some (lo, hi))
          is_point_data = Inr (x, hist)"
    and s: "sum_list hist
         = sum_list (map snd (filter (\<lambda>(a, c). in_range lo hi a) (zip tth counts_array)))"
    by blast
  have split: "sum_list hist
         + sum_list (map snd (filter (\<lambda>(a, c). \<not> in_range lo hi a) (zip tth counts_array)))
         = sum_list counts_array"
    using sum_list_filter_split[of snd "\<lambda>p. in_range lo hi (fst p)" "zip tth counts_array"]
      assms(2) s
    by (simp add: case_prod_unfold)
  have all: "list_all (in_range lo hi) tth \<longrightarrow> sum_list hist = sum_list counts_array"
    using filter_all_zip_snd[of "in_range lo hi" tth counts_array] assms(2) s by auto
  from r s split all
  show "\<exists>x hist.
          reduce_to_2theta_histogram chk st counts_array None num_bins (Some (lo, hi))
            is_point_data = Inr (x, hist)
        \<and> sum_list hist
            = sum_list (map snd (filter (\<lambda>(a, c). in_range lo hi a) (zip tth counts_array)))
        \<and> sum_list hist
            + sum_list (map snd (filter (\<lambda>(a, c). \<not> in_range lo hi a) (zip tth counts_array)))
            = sum_list counts_array
        \<and> (list_all (in_range lo hi) tth \<longrightarrow> sum_list hist = sum_list counts_array)"
    by blast
next
  assume fin: "list_all is_finite tth"
  from reduce_sum_default_range[OF assms fin] show "\<exists>x hist.
          reduce_to_2theta_histogram chk st counts_array None num_bins None is_point_data
            = Inr (x, hist)
        \<and> sum_list hist = sum_list counts_array"
    by blast
qed

lemma np_linspace_length: "length (np_linspace first_edge last_edge n) = Suc n"
  by (simp add: np_linspace_def)

lemma np_linspace_nth:
  "i \<le> n \<Longrightarrow> np_linspace first_edge last_edge n ! i
     = first_edge + real i * ((last_edge - first_edge) / real n)"
  unfolding np_linspace_def by (simp add: nth_map_upt del: upt_Suc)

lemma np_linspace_hd: "hd (np_linspace first_edge last_edge n) = first_edge"
proof -
  have "np_linspace first_edge last_edge n \<noteq> []"
    using np_linspace_length[of first_edge last_edge n] by auto
  then show ?thesis
    using np_linspace_nth[of 0 n first_edge last_edge] by (simp add: hd_conv_nth)
qed

lemma np_linspace_last:
  assumes "0 < n"
  shows "last (np_linspace first_edge last_edge n) = last_edge"
proof -
  have "np_linspace first_edge last_edge n \<noteq> []"
    using np_linspace_length[of first_edge last_edge n] by auto
  then show ?thesis
    using np_linspace_nth[of n n first_edge last_edge] assms
    by (simp add: last_conv_nth np_linspace_length)
qed

lemma np_linspace_step:
  assumes "i < n"
  shows "np_linspace first_edge last_edge n ! Suc i - np_linspace first_edge last_edge n ! i
     = np_linspace first_edge last_edge n ! 1 - np_linspace first_edge last_edge n ! 0"
proof -
  have "Suc i \<le> n" "i \<le> n" "1 \<le> n" "0 \<le> n" using assms by simp_all
  then show ?thesis
    by (simp add: np_linspace_nth field_simps)
qed

lemma reduce_point_data:
  assumes "reduce_to_2theta_histogram chk st counts_array mask_opt num_bins x_range False
             = Inr (edges, hist)"
  shows "reduce_to_2theta_histogram chk st counts_array mask_opt num_bins x_range True
           = Inr (butlast (map (\<lambda>e. e + (edges ! 1 - edges ! 0) * 0.5) edges), hist)"
    and "\<exists>tth vec. two_theta_array st = Inr tth
            \<and> np_histogram tth num_bins x_range vec = Inr (hist, edges)"
  using assms
  by (auto simp: reduce_to_2theta_histogram_def Let_def
      split: sum.splits option.splits if_splits)

lemma upt_Suc_0: "[0..<Suc 0] = [0]" by simp

lemma raw_three:
  "set_uncalibrated_pixels zero_memory three_pixel_setup = [[[1, 0, 0], [0, 0, 0], [- 1, 0, 0]]]"
  by (simp add: set_uncalibrated_pixels_def three_pixel_setup_def np_ndarray_def Let_def
      set_row_channel_def set_column_channel_def set_channel_def upt_3 zero_memory_def)

lemma three_pixel_arm: "arm_length three_pixel_setup = 0"
  by (simp add: three_pixel_setup_def)

lemma ry90: "cal_rotation_matrix_y (pi / 2) = [[0, 0, 1], [0, 1, 0], [- 1, 0, 0]]"
  by (simp add: cal_rotation_matrix_y_def)

lemma three_pixel_instrument_eq:
  "three_pixel_instrument =
     ([[[[1, 0, 0], [0, 0, 0], [- 1, 0, 0]]], [[[1, 0, 0], [0, 0, 0], [- 1, 0, 0]]],
       [[[1, 0, 0], [0, 0, 0], [- 1, 0, 0]]], [[[0, 0, - 1], [0, 0, 0], [0, 0, 1]]]],
      \<lparr>init_setup = three_pixel_setup, raw_pixel_matrix = 0, pixel_matrix = Some 3\<rparr>)"
  unfolding three_pixel_instrument_def instrument_init_unfold build_instrument_unfold
  by (simp add: raw_three Let_def shifted_grid_def calibrated_grid_def posed_grid_def
      add_to_channel_def no_calibration_def rot0 rotate_detector_def upt_3 np_zeros_like_def
      add_scaled_channel_def ry90 three_pixel_arm)

lemma spec_two_theta_values:
  "spec_two_theta [0, 0, 1] = Fin 0" "spec_two_theta [0, 0, 0] = NaN"
  "spec_two_theta [0, 0, - 1] = Fin 180"
  by (simp_all add: spec_two_theta_def)

lemma three_pixel_angles:
  "two_theta_array three_pixel_instrument = Inr [Fin 180, NaN, Fin 0]"
  by (simp add: three_pixel_instrument_eq two_theta_array_def get_pixel_array_def
      transpose_102_def upt_3 convert_to_2theta_array_spec spec_two_theta_values)

lemma one_pixel_angles: "two_theta_array one_pixel_instrument = Inr [Fin 0]"
  by (simp add: one_pixel_instrument_eq two_theta_array_def get_pixel_array_def
      transpose_102_def convert_to_2theta_array_spec spec_two_theta_values)

lemma three_pixel_histogram:
  "np_histogram [Fin 180, NaN, Fin 0] 2 (Some (0, 180)) [1, 2, 4]
     = Inr ([4, 1], [0, 90, 180])"
  by (simp add: np_histogram_def get_outer_edges_def np_linspace_def bin_index_def
      np_bincount_def Let_def upt_3 numeral_2_eq_2)

lemma one_pixel_histogram:
  "np_histogram [Fin 0] 1 None [1] = Inr ([1], [- (1 / 2), 1 / 2])"
  by (simp add: np_histogram_def get_outer_edges_def np_linspace_def bin_index_def
      np_bincount_def Let_def)

theorem histogram_sum_of_counts_witness:
  "two_theta_array three_pixel_instrument = Inr [Fin 180, NaN, Fin 0]
   \<and> length [1, 2, 4 :: real] = length [Fin 180, NaN, Fin 0]
   \<and> (1 :: int) \<le> 2 \<and> (0 :: real) < 90
   \<and> (\<exists>x hist.
         reduce_to_2theta_histogram accept_all three_pixel_instrument [1, 2, 4] None 2
           (Some (0, 90)) True = Inr (x, hist)
       \<and> sum_list hist = 4)"
proof -
  have h1: "two_theta_array three_pixel_instrument = Inr [Fin 180, NaN, Fin 0]"
    by (rule three_pixel_angles)
  have h2: "length [1, 2, 4 :: real] = length [Fin 180, NaN, Fin 0]" by simp
  have h3: "(1 :: int) \<le> 2" by simp
  have h4: "(0 :: real) < 90" by simp
  from histogram_sum_of_counts[OF h1 h2 h3, of 0 90 accept_all True] h4
  obtain x hist where
    r: "reduce_to_2theta_histogram accept_all three_pixel_instrument [1, 2, 4] None 2
           (Some (0, 90)) True = Inr (x, hist)"
    and s: "sum_list hist = sum_list (map snd (filter (\<lambda>(a, c). in_range 0 90 a)
        (zip [Fin 180, NaN, Fin 0] [1, 2, 4])))"
    by blast
  have "sum_list hist = 4" unfolding s by simp
  with r have "\<exists>x hist.
         reduce_to_2theta_histogram accept_all three_pixel_instrument [1, 2, 4] None 2
           (Some (0, 90)) True = Inr (x, hist)
       \<and> sum_list hist = 4" by blast
  with h1 h2 h3 h4 show ?thesis by (intro conjI)
qed

text \<open>
  C7. Whenever the reduction returns the edges and intensities, the same call with
  point data requested returns the same intensities with the centers obtained by adding
  delta = (edges[1] - edges[0]) / 2 to every edge and dropping the last one; there is one
  edge more than intensities, the bins have the uniform width 2 * delta, and there are
  as many centers as intensities with center[i] = edge[i] + delta for every i.
\<close>

theorem point_data_centers:
  assumes "reduce_to_2theta_histogram chk st counts_array mask_opt num_bins x_range False
             = Inr (edges, hist)"
  shows "\<exists>centers.
       reduce_to_2theta_histogram chk st counts_array mask_opt num_bins x_range True
         = Inr (centers, hist)
     \<and> centers = butlast (map (\<lambda>e. e + (edges ! 1 - edges ! 0) / 2) edges)
     \<and> length edges = length hist + 1
     \<and> length centers = length hist
     \<and> (\<forall>i<length centers. centers ! i = edges ! i + (edges ! 1 - edges ! 0) / 2)
     \<and> (\<forall>i<length hist. edges ! Suc i - edges ! i = edges ! 1 - edges ! 0)"
proof -
  from reduce_point_data(2)[OF assms] obtain tth vec where
    h: "np_histogram tth num_bins x_range vec = Inr (hist, edges)" by blast
  from np_histogram_sum[OF h] obtain first_edge last_edge where
    e: "edges = np_linspace first_edge last_edge (nat num_bins)"
    and l: "length hist = nat num_bins" by blast
  define centers where "centers = butlast (map (\<lambda>e. e + (edges ! 1 - edges ! 0) / 2) edges)"
  have r: "reduce_to_2theta_histogram chk st counts_array mask_opt num_bins x_range True
         = Inr (centers, hist)"
    using reduce_point_data(1)[OF assms] by (simp add: centers_def)
  have le: "length edges = length hist + 1" by (simp add: e l np_linspace_length)
  have lc: "length centers = length hist" by (simp add: centers_def le)
  have nth: "\<forall>i<length centers. centers ! i = edges ! i + (edges ! 1 - edges ! 0) / 2"
  proof (intro allI impI)
    fix i assume i: "i < length centers"
    then have "i < length edges" using le lc by simp
    then show "centers ! i = edges ! i + (edges ! 1 - edges ! 0) / 2"
      using i unfolding centers_def by (simp add: nth_butlast)
  qed
  have step: "\<forall>i<length hist. edges ! Suc i - edges ! i = edges ! 1 - edges ! 0"
  proof (intro allI impI)
    fix i assume "i < length hist"
    then have "i < nat num_bins" by (simp add: l)
    from np_linspace_step[OF this] show "edges ! Suc i - edges ! i = edges ! 1 - edges ! 0"
      unfolding e .
  qed
  show ?thesis
    by (rule exI[of _ centers]) (intro conjI r centers_def le lc nth step)
qed

theorem point_data_centers_witness:
  "reduce_to_2theta_histogram accept_all three_pixel_instrument [1, 2, 4] None 2
      (Some (0, 180)) False = Inr ([0, 90, 180], [4, 1])
   \<and> reduce_to_2theta_histogram accept_all three_pixel_instrument [1, 2, 4] None 2
      (Some (0, 180)) True = Inr ([45, 135], [4, 1])"
proof -
  have h: "reduce_to_2theta_histogram accept_all three_pixel_instrument [1, 2, 4] None 2
      (Some (0, 180)) False = Inr ([0, 90, 180], [4, 1])"
    by (simp add: reduce_to_2theta_histogram_def three_pixel_angles three_pixel_histogram)
  from point_data_centers[OF h] have
    "reduce_to_2theta_histogram accept_all three_pixel_instrument [1, 2, 4] None 2
      (Some (0, 180)) True
       = Inr (butlast (map (\<lambda>e. e + ([0, 90, 180] ! 1 - [0, 90, 180] ! 0) / 2) [0, 90, 180]),
              [4, 1])"
    by blast
  then show ?thesis using h by simp
qed

lemma raw_two:
  "set_uncalibrated_pixels zero_memory two_pixel_setup = [[[1, 0, 0], [- 1, 0, 0]]]"
  by (simp add: set_uncalibrated_pixels_def two_pixel_setup_def np_ndarray_def Let_def
      set_row_channel_def set_column_channel_def set_channel_def upt_3 zero_memory_def
      numeral_2_eq_2)

lemma two_pixel_arm: "arm_length two_pixel_setup = 0"
  by (simp add: two_pixel_setup_def)

lemma two_pixel_instrument_eq:
  "two_pixel_instrument =
     ([[[[1, 0, 0], [- 1, 0, 0]]], [[[1, 0, 0], [- 1, 0, 0]]],
       [[[1, 0, 0], [- 1, 0, 0]]], [[[0, 0, - 1], [0, 0, 1]]]],
      \<lparr>init_setup = two_pixel_setup, raw_pixel_matrix = 0, pixel_matrix = Some 3\<rparr>)"
  unfolding two_pixel_instrument_def instrument_init_unfold build_instrument_unfold
  by (simp add: raw_two Let_def shifted_grid_def calibrated_grid_def posed_grid_def
      add_to_channel_def no_calibration_def rot0 rotate_detector_def upt_3 np_zeros_like_def
      add_scaled_channel_def ry90 two_pixel_arm)

lemma two_pixel_angles:
  "two_theta_array two_pixel_instrument = Inr [Fin 180, Fin 0]"
  by (simp add: two_pixel_instrument_eq two_theta_array_def get_pixel_array_def
      transpose_102_def numeral_2_eq_2 convert_to_2theta_array_spec spec_two_theta_values)

lemma two_pixel_histogram:
  "np_histogram [Fin 180, Fin 0] 2 None [1, 2] = Inr ([2, 1], [0, 90, 180])"
  by (simp add: np_histogram_def get_outer_edges_def np_linspace_def bin_index_def
      np_bincount_def Let_def upt_3 numeral_2_eq_2)

lemma fold_min_Min: "fold min (map the_fin (tl a)) (the_fin (hd a)) = Min (the_fin ` set a)"
  if "a \<noteq> []" for a
proof -
  from that obtain x xs where a: "a = x # xs" by (cases a) auto
  have "Min (set (the_fin x # map the_fin xs)) = fold min (map the_fin xs) (the_fin x)"
    by (rule Min.set_eq_fold)
  then show ?thesis by (simp add: a)
qed

lemma fold_max_Max: "fold max (map the_fin (tl a)) (the_fin (hd a)) = Max (the_fin ` set a)"
  if "a \<noteq> []" for a
proof -
  from that obtain x xs where a: "a = x # xs" by (cases a) auto
  have "Max (set (the_fin x # map the_fin xs)) = fold max (map the_fin xs) (the_fin x)"
    by (rule Max.set_eq_fold)
  then show ?thesis by (simp add: a)
qed

lemma get_outer_edges_default:
  assumes "get_outer_edges a None = Inr (first_edge, last_edge)"
  shows "a = [] \<Longrightarrow> first_edge = 0 \<and> last_edge = 1"
    and "a \<noteq> [] \<Longrightarrow> list_all is_finite a"
    and "a \<noteq> [] \<Longrightarrow> fst (spec_default_range a) < snd (spec_default_range a)
           \<Longrightarrow> (first_edge, last_edge) = spec_default_range a"
    and "a \<noteq> [] \<Longrightarrow> fst (spec_default_range a) = snd (spec_default_range a)
           \<Longrightarrow> first_edge = fst (spec_default_range a) - 1 / 2
             \<and> last_edge = snd (spec_default_range a) + 1 / 2"
  using assms
  by (auto simp: get_outer_edges_def spec_default_range_def fold_min_Min fold_max_Max
      split: if_splits)

lemma reduce_shape_mismatch:
  assumes "two_theta_array st = Inr tth" "length tth \<noteq> length counts_array"
  shows "reduce_to_2theta_histogram chk st counts_array mask_opt num_bins x_range is_point_data
           = Inl (RuntimeError ''Counts (array) has a different ... blabla'')"
  using assms by (simp add: reduce_to_2theta_histogram_def)

lemma reduce_bad_range:
  assumes "hi \<le> lo"
  shows "\<exists>e. reduce_to_2theta_histogram chk st counts_array mask_opt num_bins (Some (lo, hi))
           is_point_data = Inl e"
    and "two_theta_array st = Inr tth \<Longrightarrow> length tth = length counts_array \<Longrightarrow>
         reduce_to_2theta_histogram chk st counts_array mask_opt num_bins (Some (lo, hi))
           is_point_data = Inl (RuntimeError ''X range is not allowed'')"
proof -
  show "two_theta_array st = Inr tth \<Longrightarrow> length tth = length counts_array \<Longrightarrow>
         reduce_to_2theta_histogram chk st counts_array mask_opt num_bins (Some (lo, hi))
           is_point_data = Inl (RuntimeError ''X range is not allowed'')"
    using assms by (simp add: reduce_to_2theta_histogram_def)
  show "\<exists>e. reduce_to_2theta_histogram chk st counts_array mask_opt num_bins (Some (lo, hi))
           is_point_data = Inl e"
    using assms by (cases "two_theta_array st") (simp_all add: reduce_to_2theta_histogram_def)
qed

text \<open>
  C8, as amended. When the angle array and the counts array have different shapes the
  reduction raises the RuntimeError of the shape check. For an explicit range (lo, hi)
  with lo >= hi the reduction fails, with the RuntimeError of the range check when the
  shapes agree. When no range is supplied and the reduction returns, the edges run from
  0 to 1 if there are no pixels; otherwise all angles are finite and the edges run from
  min(angles) to max(angles) if these differ, and from min(angles) - 1/2 to
  max(angles) + 1/2 if all angles are equal.
\<close>

theorem reduce_errors_and_default_range:
  "(two_theta_array st = Inr tth \<and> length tth \<noteq> length counts_array \<longrightarrow>
      reduce_to_2theta_histogram chk st counts_array mask_opt num_bins x_range is_point_data
        = Inl (RuntimeError ''Counts (array) has a different ... blabla''))
   \<and> (hi \<le> lo \<longrightarrow>
        (\<exists>e. reduce_to_2theta_histogram chk st counts_array mask_opt num_bins (Some (lo, hi))
           is_point_data = Inl e)
      \<and> (two_theta_array st = Inr tth \<and> length tth = length counts_array \<longrightarrow>
           reduce_to_2theta_histogram chk st counts_array mask_opt num_bins (Some (lo, hi))
             is_point_data = Inl (RuntimeError ''X range is not allowed'')))
   \<and> (two_theta_array st = Inr tth
        \<and> reduce_to_2theta_histogram chk st counts_array mask_opt num_bins None False
            = Inr (edges, hist) \<longrightarrow>
        (tth = [] \<longrightarrow> hd edges = 0 \<and> last edges = 1)
      \<and> (tth \<noteq> [] \<longrightarrow>
           list_all is_finite tth
         \<and> (fst (spec_default_range tth) < snd (spec_default_range tth) \<longrightarrow>
               (hd edges, last edges) = spec_default_range tth)
         \<and> (fst (spec_default_range tth) = snd (spec_default_range tth) \<longrightarrow>
               hd edges = fst (spec_default_range tth) - 1 / 2
             \<and> last edges = snd (spec_default_range tth) + 1 / 2)))"
proof (intro conjI impI)
  assume "two_theta_array st = Inr tth \<and> length tth \<noteq> length counts_array"
  then show "reduce_to_2theta_histogram chk st counts_array mask_opt num_bins x_range
      is_point_data = Inl (RuntimeError ''Counts (array) has a different ... blabla'')"
    using reduce_shape_mismatch by blast
next
  assume "hi \<le> lo"
  then show "\<exists>e. reduce_to_2theta_histogram chk st counts_array mask_opt num_bins
      (Some (lo, hi)) is_point_data = Inl e"
    by (rule reduce_bad_range(1))
next
  assume "hi \<le> lo" "two_theta_array st = Inr tth \<and> length tth = length counts_array"
  then show "reduce_to_2theta_histogram chk st counts_array mask_opt num_bins (Some (lo, hi))
             is_point_data = Inl (RuntimeError ''X range is not allowed'')"
    using reduce_bad_range(2) by blast
next
  assume a: "two_theta_array st = Inr tth
        \<and> reduce_to_2theta_histogram chk st counts_array mask_opt num_bins None False
            = Inr (edges, hist)"
  from reduce_point_data(2)[of chk st counts_array mask_opt num_bins None edges hist] a
  obtain vec where h: "np_histogram tth num_bins None vec = Inr (hist, edges)" by auto
  from np_histogram_sum[OF h] obtain first_edge last_edge where
    oe: "get_outer_edges tth None = Inr (first_edge, last_edge)"
    and e: "edges = np_linspace first_edge last_edge (nat num_bins)" by blast
  have "1 \<le> num_bins" using h by (auto simp: np_histogram_def split: if_splits)
  then have hl: "hd edges = first_edge" "last edges = last_edge"
    by (simp_all add: e np_linspace_hd np_linspace_last)
  note d = get_outer_edges_default[OF oe]
  {
    assume "tth = []"
    then show "hd edges = 0" "last edges = 1" using d(1) hl by simp_all
  }
  {
    assume ne: "tth \<noteq> []"
    show "list_all is_finite tth" using d(2)[OF ne] .
    {
      assume "fst (spec_default_range tth) < snd (spec_default_range tth)"
      then show "(hd edges, last edges) = spec_default_range tth"
        using d(3)[OF ne] hl by simp
    }
    {
      assume "fst (spec_default_range tth) = snd (spec_default_range tth)"
      then show "hd edges = fst (spec_default_range tth) - 1 / 2"
        "last edges = snd (spec_default_range tth) + 1 / 2"
        using d(4)[OF ne] hl by simp_all
    }
  }
qed

theorem reduce_errors_and_default_range_witness:
  "two_theta_array two_pixel_instrument = Inr [Fin 180, Fin 0]
   \<and> length [Fin 180, Fin 0] \<noteq> length [1 :: real]
   \<and> reduce_to_2theta_histogram accept_all two_pixel_instrument [1] None 2 None False
       = Inl (RuntimeError ''Counts (array) has a different ... blabla'')
   \<and> (5 :: real) \<le> 5
   \<and> length [Fin 180, Fin 0] = length [1, 2 :: real]
   \<and> reduce_to_2theta_histogram accept_all two_pixel_instrument [1, 2] None 2 (Some (5, 5)) False
       = Inl (RuntimeError ''X range is not allowed'')
   \<and> reduce_to_2theta_histogram accept_all two_pixel_instrument [1, 2] None 2 None False
       = Inr ([0, 90, 180], [2, 1])
   \<and> spec_default_range [Fin 180, Fin 0] = (0, 180)
   \<and> (hd [0, 90, 180 :: real], last [0, 90, 180 :: real]) = spec_default_range [Fin 180, Fin 0]"
proof -
  have a: "two_theta_array two_pixel_instrument = Inr [Fin 180, Fin 0]"
    by (rule two_pixel_angles)
  have r: "reduce_to_2theta_histogram accept_all two_pixel_instrument [1, 2] None 2 None False
       = Inr ([0, 90, 180], [2, 1])"
    by (simp add: reduce_to_2theta_histogram_def two_pixel_angles two_pixel_histogram)
  have d: "spec_default_range [Fin 180, Fin 0] = (0, 180)"
    by (simp add: spec_default_range_def)
  note t1 = reduce_errors_and_default_range[of two_pixel_instrument "[Fin 180, Fin 0]" "[1]"
      accept_all None 2 None False 5 5 "[0, 90, 180]" "[2, 1]"]
  note t2 = reduce_errors_and_default_range[of two_pixel_instrument "[Fin 180, Fin 0]" "[1, 2]"
      accept_all None 2 None False 5 5 "[0, 90, 180]" "[2, 1]"]
  have c1: "reduce_to_2theta_histogram accept_all two_pixel_instrument [1] None 2 None False
       = Inl (RuntimeError ''Counts (array) has a different ... blabla'')"
    using t1 a by simp
  have c2: "reduce_to_2theta_histogram accept_all two_pixel_instrument [1, 2] None 2
       (Some (5, 5)) False = Inl (RuntimeError ''X range is not allowed'')"
    using t2 a by simp
  have c3: "(hd [0, 90, 180 :: real], last [0, 90, 180 :: real])
       = spec_default_range [Fin 180, Fin 0]"
    using t2 a r d by simp
  from a c1 c2 r d c3 show ?thesis by simp
qed

text \<open>
  C8 as stated fails for a detector of one pixel at angle 0: without a range the edges
  run from -1/2 to 1/2, not from min(angles) = 0 to max(angles) = 0.
\<close>

theorem default_range_counterexample:
  "two_theta_array one_pixel_instrument = Inr [Fin 0]
   \<and> reduce_to_2theta_histogram accept_all one_pixel_instrument [1] None 1 None False
       = Inr ([- (1 / 2), 1 / 2], [1])
   \<and> spec_default_range [Fin 0] = (0, 0)
   \<and> (hd [- (1 / 2), 1 / 2 :: real], last [- (1 / 2), 1 / 2 :: real]) \<noteq> spec_default_range [Fin 0]"
  by (simp add: reduce_to_2theta_histogram_def one_pixel_angles one_pixel_histogram
      spec_default_range_def)

section \<open>Properties of the workspace and of the manager\<close>

text \<open>
  C10. For every sub-run, mask id, two-theta array and intensity array,
  set_reduced_diffraction_data raises an error and leaves the workspace as it was
  whenever the two arrays have different shapes; so a histogram in edge form, with one
  edge more than intensities, is never written to the result store, and a call that
  returns normally had arrays of equal length.
\<close>

theorem edge_form_not_storable:
  "(length two_theta_arr \<noteq> length intensity_array \<longrightarrow>
      (\<exists>e. set_reduced_diffraction_data chk u ws sub_run mask_id two_theta_arr intensity_array
             = (Inl e, ws)))
   \<and> (length two_theta_arr = length intensity_array + 1 \<longrightarrow>
      (\<exists>e. set_reduced_diffraction_data chk u ws sub_run mask_id two_theta_arr intensity_array
             = (Inl e, ws)))
   \<and> (fst (set_reduced_diffraction_data chk u ws sub_run mask_id two_theta_arr intensity_array)
         = Inr () \<longrightarrow> length two_theta_arr = length intensity_array)"
proof -
  have a: "\<exists>e. set_reduced_diffraction_data chk u ws sub_run mask_id two_theta_arr
      intensity_array = (Inl e, ws)"
    if "length two_theta_arr \<noteq> length intensity_array"
    using that by (simp add: set_reduced_diffraction_data_def split: option.splits)
  have b: "length two_theta_arr = length intensity_array"
    if "fst (set_reduced_diffraction_data chk u ws sub_run mask_id two_theta_arr
      intensity_array) = Inr ()"
  proof (rule ccontr)
    assume "length two_theta_arr \<noteq> length intensity_array"
    from a[OF this] that show False by auto
  qed
  from a b show ?thesis by auto
qed

theorem edge_form_not_storable_witness:
  "length [0, 90, 180 :: real] = length [4, 1 :: real] + 1
   \<and> set_reduced_diffraction_data accept_all zero_rows example_workspace 1 None [0, 90, 180] [4, 1]
       = (Inl (RuntimeError
            ''Two theta array (bin centers) must have same dimension as intensity array.''),
          example_workspace)
   \<and> fst (set_reduced_diffraction_data accept_all zero_rows example_workspace 1 None
            [45, 135] [4, 1]) = Inr ()
   \<and> length [45, 135 :: real] = length [4, 1 :: real]"
proof -
  have h: "length [0, 90, 180 :: real] = length [4, 1 :: real] + 1" by simp
  note t = edge_form_not_storable[of "[0, 90, 180]" "[4, 1]" accept_all zero_rows
      example_workspace 1 None]
  from t h obtain e where
    e: "set_reduced_diffraction_data accept_all zero_rows example_workspace 1 None
          [0, 90, 180] [4, 1] = (Inl e, example_workspace)"
    by blast
  have "fst (set_reduced_diffraction_data accept_all zero_rows example_workspace 1 None
          [0, 90, 180] [4, 1])
      = Inl (RuntimeError
            ''Two theta array (bin centers) must have same dimension as intensity array.'')"
    by (simp add: set_reduced_diffraction_data_def example_workspace_def
        HidraWorkspace_init_def accept_all_def)
  with e have e': "e = RuntimeError
            ''Two theta array (bin centers) must have same dimension as intensity array.''"
    by simp
  have ok: "fst (set_reduced_diffraction_data accept_all zero_rows example_workspace 1 None
            [45, 135] [4, 1]) = Inr ()"
    by (simp add: set_reduced_diffraction_data_def example_workspace_def
        HidraWorkspace_init_def accept_all_def np_ndarray2_def Let_def)
  from h e e' ok show ?thesis by simp
qed

lemma point_data_stored:
  "snd (set_reduced_diffraction_data accept_all zero_rows example_workspace 1 None
          [45, 135] [4, 1])
     = example_workspace\<lparr>two_theta_matrix := Some (Array2 2 [[45, 135]]),
         diff_data_set := [None \<mapsto> (2, [[4, 1]])]\<rparr>"
  by (simp add: set_reduced_diffraction_data_def example_workspace_def
      HidraWorkspace_init_def accept_all_def np_ndarray2_def Let_def zero_rows_def
      numeral_2_eq_2)

lemma missing_attributes:
  "''get_subruns'' \<notin> set HidraWorkspace_attributes"
  "''get_raw_data'' \<notin> set HidraWorkspace_attributes"
  "''set_experimental_data'' \<notin> set PyHB2BReduction_attributes"
  "''set_mask'' \<notin> set PyHB2BReduction_attributes"
  by (simp_all add: HidraWorkspace_attributes_def PyHB2BReduction_attributes_def)

text \<open>
  C3. For every sub-run of the session the orchestrator is to fetch counts and
  two-theta, negate two-theta, build the pose, convert to angles, reduce and store the
  result under (sub-run, mask id). On the classes of the sources it does none of this:
  reduce_sub_run_diffraction raises AttributeError at its first statement, the call of
  \<^verbatim>\<open>workspace.get_raw_data\<close>; reduce_diffraction_data always raises and leaves the manager
  and its workspaces unchanged, and for a registered session without mask it raises
  AttributeError at \<^verbatim>\<open>workspace.get_subruns\<close>, before the first sub-run.
\<close>

theorem orchestrator_raises_before_reducing:
  "reduce_sub_run_diffraction nis chk u workspace sub_run geometry_calibration mask_vec_id
     = (Inl (AttributeError ''get_raw_data''), workspace)
   \<and> (\<exists>e. reduce_diffraction_data nis chk u mgr session_name apply_calibrated_geometry
            bin_size_2theta mask_in = (Inl e, mgr))
   \<and> reduce_diffraction_data nis chk u example_manager (Some ''session'')
        (UseWorkspaceShift False) bin_size_2theta NoMask
       = (Inl (AttributeError ''get_subruns''), example_manager)"
proof (intro conjI)
  show "reduce_sub_run_diffraction nis chk u workspace sub_run geometry_calibration mask_vec_id
     = (Inl (AttributeError ''get_raw_data''), workspace)"
    by (simp add: reduce_sub_run_diffraction_def call_method_def missing_attributes)
next
  have c: "call_method HidraWorkspace_attributes ''get_subruns'' b
             = Inl (AttributeError ''get_subruns'')" for b :: "error + int list"
    by (simp add: call_method_def missing_attributes)
  show "\<exists>e. reduce_diffraction_data nis chk u mgr session_name apply_calibrated_geometry
            bin_size_2theta mask_in = (Inl e, mgr)"
    unfolding reduce_diffraction_data_def Let_def c
    by (auto split: option.splits sum.splits mask_arg.splits calibrated_geometry_arg.splits
        bool.splits)
  show "reduce_diffraction_data nis chk u example_manager (Some ''session'')
        (UseWorkspaceShift False) bin_size_2theta NoMask
       = (Inl (AttributeError ''get_subruns''), example_manager)"
    unfolding reduce_diffraction_data_def Let_def c
    by (simp add: example_manager_def)
qed

end
